theory Spec2Isabelle
  imports Complex_Main "HOL-Library.Monad_Syntax" "HOL-Library.Log_Nat"
begin

section \<open>JavaScript values and validated input fields\<close>

text \<open>
  A \<open>Date\<close> is its number of milliseconds since the epoch.  A JavaScript number is
  modelled by the real it denotes.  The handlers compare numbers and copy them; the one
  place where they compute, the offset of a page, is modelled with the rounding of
  double arithmetic (see \<open>round_double\<close>).
\<close>

type_synonym timestamp = int

datatype jsval =
    JUndefined
  | JNull
  | JBool bool
  | JNum real
  | JStr string
  | JArr "jsval list"
  | JObj "(string \<times> jsval) list"

text \<open>
  A property of a validated input object \<open>input\<close> is in one of three states: the
  key is not an own property (\<open>Absent\<close>), the key is there and holds \<open>undefined\<close>
  (\<open>Undef\<close>), or it holds a value.  The operator \<open>??\<close> cannot tell the first two
  apart; object spread can.
\<close>

datatype 'a field = Absent | Undef | Given 'a

text \<open>A property of a returned JavaScript object: \<open>undefined\<close>, \<open>null\<close> or a value.\<close>

datatype 'a js = JsUndefined | JsNull | JsVal 'a

text \<open>\<open>data[key]\<close> and \<open>key in data\<close> on a plain object.\<close>

definition get_prop :: "(string \<times> jsval) list \<Rightarrow> string \<Rightarrow> jsval" where
  "get_prop obj k = (case map_of obj k of None \<Rightarrow> JUndefined | Some v \<Rightarrow> v)"

definition has_key :: "(string \<times> jsval) list \<Rightarrow> string \<Rightarrow> bool" where
  "has_key obj k = (case map_of obj k of None \<Rightarrow> False | Some v \<Rightarrow> True)"

text \<open>\<open>a ?? b\<close> where \<open>b\<close> is a column that is never null, and where it may be null.\<close>

fun coalesce :: "'a field \<Rightarrow> 'a \<Rightarrow> 'a" where
  "coalesce (Given v) prior = v"
| "coalesce Undef prior = prior"
| "coalesce Absent prior = prior"

fun coalesce_null :: "'a field \<Rightarrow> 'a option \<Rightarrow> 'a option" where
  "coalesce_null (Given v) prior = Some v"
| "coalesce_null Undef prior = prior"
| "coalesce_null Absent prior = prior"

text \<open>
  \<open>{...row, ...input}\<close> at one key: an own property of \<open>input\<close> replaces the row's,
  whatever it holds.
\<close>

fun spread :: "'a js \<Rightarrow> 'a field \<Rightarrow> 'a js" where
  "spread prior Absent = prior"
| "spread prior Undef = JsUndefined"
| "spread prior (Given v) = JsVal v"

text \<open>Reading \<open>input.key\<close> into a fresh object literal, and into an inserted row.\<close>

fun read_field :: "'a field \<Rightarrow> 'a js" where
  "read_field (Given v) = JsVal v"
| "read_field Undef = JsUndefined"
| "read_field Absent = JsUndefined"

fun to_column :: "'a field \<Rightarrow> 'a option" where
  "to_column (Given v) = Some v"
| "to_column Undef = None"
| "to_column Absent = None"

text \<open>A nullable column as the property of a selected row object.\<close>

fun of_column :: "'a option \<Rightarrow> 'a js" where
  "of_column None = JsNull"
| "of_column (Some v) = JsVal v"

section \<open>The schema library\<close>

text \<open>
  The validators of \<open>astro:schema\<close> that the actions use, each as a function from the
  raw value to the parsed value, \<open>None\<close> when the value raises an issue.
\<close>

datatype kind = Expense | Income | Transfer

definition z_string :: "jsval \<Rightarrow> string option" where
  "z_string v = (case v of JStr s \<Rightarrow> Some s | _ \<Rightarrow> None)"

definition z_string_min1 :: "jsval \<Rightarrow> string option" where
  "z_string_min1 v = (case v of JStr s \<Rightarrow> if 1 \<le> length s then Some s else None | _ \<Rightarrow> None)"

definition z_number :: "jsval \<Rightarrow> real option" where
  "z_number v = (case v of JNum r \<Rightarrow> Some r | _ \<Rightarrow> None)"

definition z_number_positive :: "jsval \<Rightarrow> real option" where
  "z_number_positive v = (case v of JNum r \<Rightarrow> if r \<le> 0 then None else Some r | _ \<Rightarrow> None)"

definition z_number_int_positive :: "jsval \<Rightarrow> int option" where
  "z_number_int_positive v =
     (case v of
        JNum r \<Rightarrow> if of_int \<lfloor>r\<rfloor> \<noteq> r then None else if r \<le> 0 then None else Some \<lfloor>r\<rfloor>
      | _ \<Rightarrow> None)"

definition z_boolean :: "jsval \<Rightarrow> bool option" where
  "z_boolean v = (case v of JBool b \<Rightarrow> Some b | _ \<Rightarrow> None)"

definition z_enum_kind :: "jsval \<Rightarrow> kind option" where
  "z_enum_kind v =
     (case v of
        JStr s \<Rightarrow>
          if s = ''expense'' then Some Expense
          else if s = ''income'' then Some Income
          else if s = ''transfer'' then Some Transfer
          else None
      | _ \<Rightarrow> None)"

text \<open>
  \<open>z.coerce.date()\<close> is \<open>new Date(v)\<close> followed by the check that the date is valid.
  The conversion is the language's; it is the parameter \<open>toDate\<close>, \<open>None\<close> for an
  invalid date.
\<close>

definition z_coerce_date :: "(jsval \<Rightarrow> timestamp option) \<Rightarrow> jsval \<Rightarrow> timestamp option" where
  "z_coerce_date toDate v = toDate v"

text \<open>
  A key declared \<open>.optional()\<close> inside \<open>z.object\<close>: \<open>undefined\<close> is accepted without
  running the inner validator, and the key is set on the output when it was in the data.
\<close>

definition optional :: "(jsval \<Rightarrow> 'a option) \<Rightarrow> (string \<times> jsval) list \<Rightarrow> string \<Rightarrow> 'a field option" where
  "optional p obj k =
     (if get_prop obj k = JUndefined then Some (if has_key obj k then Undef else Absent)
      else map_option Given (p (get_prop obj k)))"

text \<open>A key declared without \<open>.optional()\<close>, and one declared \<open>.default(d)\<close>.\<close>

definition required :: "(jsval \<Rightarrow> 'a option) \<Rightarrow> (string \<times> jsval) list \<Rightarrow> string \<Rightarrow> 'a option" where
  "required p obj k = p (get_prop obj k)"

definition with_default :: "(jsval \<Rightarrow> 'a option) \<Rightarrow> 'a \<Rightarrow> (string \<times> jsval) list \<Rightarrow> string \<Rightarrow> 'a option" where
  "with_default p d obj k = (if get_prop obj k = JUndefined then Some d else p (get_prop obj k))"

section \<open>Tables\<close>

record account =
  a_id :: string
  a_userId :: string
  a_name :: string
  a_type :: "string option"
  a_currency :: "string option"
  a_startingBalance :: "real option"
  a_isArchived :: bool
  a_createdAt :: timestamp
  a_updatedAt :: timestamp

record category =
  c_id :: string
  c_userId :: string
  c_name :: string
  c_type :: "kind option"
  c_icon :: "string option"
  c_parentCategoryId :: "string option"
  c_sortOrder :: "real option"
  c_isArchived :: bool
  c_createdAt :: timestamp
  c_updatedAt :: timestamp

record transaction =
  t_id :: string
  t_userId :: string
  t_accountId :: "string option"
  t_categoryId :: "string option"
  t_type :: kind
  t_amount :: real
  t_currency :: "string option"
  t_transactionDate :: timestamp
  t_description :: "string option"
  t_transferAccountId :: "string option"
  t_createdAt :: timestamp
  t_updatedAt :: timestamp

text \<open>The database: each table is the list of its rows in storage order.\<close>

record db =
  Accounts :: "account list"
  Categories :: "category list"
  Transactions :: "transaction list"

subsection \<open>Errors\<close>

datatype code = UNAUTHORIZED | NOT_FOUND

text \<open>
  \<open>ActionError\<close> is what the handlers throw; \<open>ActionInputError\<close> is what the action
  wrapper throws when the schema rejects the input.  The other three come from the store
  and its client and pass through the handlers untouched: \<open>ConstraintError\<close> is a
  statement refused by a primary key or a foreign key, \<open>MismatchError\<close> a select whose
  limit or offset is not a 64-bit integer, and \<open>RangeError\<close> a number the client will
  not pass on.
\<close>

datatype error =
    ActionError code string
  | ActionInputError
  | ConstraintError
  | MismatchError
  | RangeError

subsection \<open>Numbers in the store\<close>

text \<open>
  A \<open>column.number\<close> column has integer affinity: a number written to it that is a whole
  number strictly between \<open>-2^63\<close> and \<open>2^63\<close> is stored as an integer, any other
  number as a float.  Reading a row back, the client refuses an integer outside the safe
  range of a double, that is of magnitude \<open>2^53\<close> or more.  Such a value can be written
  and cannot be read.
\<close>

definition unsafe_integer :: "real \<Rightarrow> bool" where
  "unsafe_integer v = (of_int \<lfloor>v\<rfloor> = v \<and> 2 ^ 53 \<le> \<bar>v\<bar> \<and> \<bar>v\<bar> < 2 ^ 63)"

fun unsafe_column :: "real option \<Rightarrow> bool" where
  "unsafe_column None = False"
| "unsafe_column (Some v) = unsafe_integer v"

definition account_unreadable :: "account \<Rightarrow> bool" where
  "account_unreadable a = unsafe_column (a_startingBalance a)"

definition category_unreadable :: "category \<Rightarrow> bool" where
  "category_unreadable c = unsafe_column (c_sortOrder c)"

definition transaction_unreadable :: "transaction \<Rightarrow> bool" where
  "transaction_unreadable t = unsafe_integer (t_amount t)"

text \<open>
  Double arithmetic on whole numbers: a result of magnitude at most \<open>2^53\<close> is exact,
  a larger one is rounded to 53 significant bits, ties to even.  A result of magnitude
  \<open>2^1024\<close> or more stands for \<open>Infinity\<close>.
\<close>

definition round_double :: "int \<Rightarrow> int" where
  "round_double n =
     (if \<bar>n\<bar> \<le> 2 ^ 53 then n
      else (let k = nat (bitlen \<bar>n\<bar> - 53);
                q = \<bar>n\<bar> div 2 ^ k;
                r = \<bar>n\<bar> mod 2 ^ k;
                q' = (if 2 ^ k < 2 * r \<or> (2 * r = 2 ^ k \<and> odd q) then q + 1 else q)
            in sgn n * (q' * 2 ^ k)))"

definition js_minus :: "int \<Rightarrow> int \<Rightarrow> int" where
  "js_minus a b = round_double (a - b)"

definition js_times :: "int \<Rightarrow> int \<Rightarrow> int" where
  "js_times a b = round_double (a * b)"

definition js_infinite :: "int \<Rightarrow> bool" where
  "js_infinite n = (2 ^ 1024 \<le> \<bar>n\<bar>)"

subsection \<open>Statements\<close>

text \<open>
  The statements the handlers issue.  A select without \<open>orderBy\<close> yields the rows in
  storage order; the client decodes the rows it yields, and only those, and throws when
  one of them cannot be read.  \<open>id\<close> is the primary key of every table, so an insert
  whose id is already stored is refused by the store and changes nothing.
\<close>

definition db_select :: "('r \<Rightarrow> bool) \<Rightarrow> ('r \<Rightarrow> bool) \<Rightarrow> 'r list \<Rightarrow> error + 'r list" where
  "db_select unreadable wh rows =
     (let found = filter wh rows
      in if list_ex unreadable found then Inl RangeError else Inr found)"

definition db_update :: "('r \<Rightarrow> 'r) \<Rightarrow> ('r \<Rightarrow> bool) \<Rightarrow> 'r list \<Rightarrow> 'r list" where
  "db_update upd wh rows = map (\<lambda>r. if wh r then upd r else r) rows"

definition db_delete :: "('r \<Rightarrow> bool) \<Rightarrow> 'r list \<Rightarrow> 'r list" where
  "db_delete wh rows = filter (\<lambda>r. \<not> wh r) rows"

definition db_insert :: "('r \<Rightarrow> string) \<Rightarrow> 'r \<Rightarrow> 'r list \<Rightarrow> 'r list option" where
  "db_insert key r rows = (if key r \<in> set (map key rows) then None else Some (rows @ [r]))"

text \<open>\<open>const [row] = await db.select()...; return row ?? null\<close>.\<close>

definition first_or_null :: "'r list \<Rightarrow> 'r option" where
  "first_or_null rows = (case rows of [] \<Rightarrow> None | r # _ \<Rightarrow> Some r)"

section \<open>Caller identity, errors and responses\<close>

record user =
  user_id :: string

record locals =
  locals_user :: "user option"

record api_context =
  ctx_locals :: "locals option"

definition requireUser :: "api_context \<Rightarrow> error + user" where
  "requireUser ctx =
     (case ctx_locals ctx of
        None \<Rightarrow> Inl (ActionError UNAUTHORIZED ''You must be signed in to perform this action.'')
      | Some l \<Rightarrow>
          (case locals_user l of
             None \<Rightarrow> Inl (ActionError UNAUTHORIZED ''You must be signed in to perform this action.'')
           | Some u \<Rightarrow> Inr u))"

text \<open>
  What a handler reads from outside the request: \<open>crypto.randomUUID()\<close> and the clock.
  \<open>createTransaction\<close> reads the clock a second time when the input has no date.
\<close>

record env =
  env_uuid :: string
  env_now :: timestamp
  env_now2 :: timestamp

text \<open>The objects the handlers return in \<open>data\<close>.\<close>

record account_obj =
  ao_id :: string
  ao_userId :: string
  ao_name :: "string js"
  ao_type :: "string js"
  ao_currency :: "string js"
  ao_startingBalance :: "real js"
  ao_isArchived :: "bool js"
  ao_createdAt :: timestamp
  ao_updatedAt :: timestamp

record category_obj =
  co_id :: string
  co_userId :: string
  co_name :: "string js"
  co_type :: "kind js"
  co_icon :: "string js"
  co_parentCategoryId :: "string js"
  co_sortOrder :: "real js"
  co_isArchived :: "bool js"
  co_createdAt :: timestamp
  co_updatedAt :: timestamp

record transaction_obj =
  to_id :: string
  to_userId :: string
  to_accountId :: "string js"
  to_categoryId :: "string js"
  to_type :: "kind js"
  to_amount :: "real js"
  to_currency :: "string js"
  to_transactionDate :: "timestamp js"
  to_description :: "string js"
  to_transferAccountId :: "string js"
  to_createdAt :: timestamp
  to_updatedAt :: timestamp

text \<open>A stored row as the object that \<open>select()\<close> yields for it.\<close>

definition account_row :: "account \<Rightarrow> account_obj" where
  "account_row a =
     \<lparr>ao_id = a_id a, ao_userId = a_userId a, ao_name = JsVal (a_name a),
      ao_type = of_column (a_type a), ao_currency = of_column (a_currency a),
      ao_startingBalance = of_column (a_startingBalance a),
      ao_isArchived = JsVal (a_isArchived a),
      ao_createdAt = a_createdAt a, ao_updatedAt = a_updatedAt a\<rparr>"

definition category_row :: "category \<Rightarrow> category_obj" where
  "category_row c =
     \<lparr>co_id = c_id c, co_userId = c_userId c, co_name = JsVal (c_name c),
      co_type = of_column (c_type c), co_icon = of_column (c_icon c),
      co_parentCategoryId = of_column (c_parentCategoryId c),
      co_sortOrder = of_column (c_sortOrder c),
      co_isArchived = JsVal (c_isArchived c),
      co_createdAt = c_createdAt c, co_updatedAt = c_updatedAt c\<rparr>"

definition transaction_row :: "transaction \<Rightarrow> transaction_obj" where
  "transaction_row t =
     \<lparr>to_id = t_id t, to_userId = t_userId t,
      to_accountId = of_column (t_accountId t), to_categoryId = of_column (t_categoryId t),
      to_type = JsVal (t_type t), to_amount = JsVal (t_amount t),
      to_currency = of_column (t_currency t),
      to_transactionDate = JsVal (t_transactionDate t),
      to_description = of_column (t_description t),
      to_transferAccountId = of_column (t_transferAccountId t),
      to_createdAt = t_createdAt t, to_updatedAt = t_updatedAt t\<rparr>"

text \<open>
  The response envelope \<open>{ success: true, data }\<close>; \<open>deleteTransaction\<close> returns
  \<open>{ success: true }\<close> alone.  A list carries \<open>items\<close> and \<open>total\<close>, the transaction
  list also \<open>page\<close> and \<open>pageSize\<close>.
\<close>

datatype response =
    AccountData account_obj
  | CategoryData category_obj
  | TransactionData transaction_obj
  | AccountItems "account list" nat
  | CategoryItems "category list" nat
  | TransactionItems "transaction list" nat int int
  | Success

type_synonym outcome = "(error + response) \<times> db"

section \<open>Account actions\<close>

definition getAccountForUser :: "string \<Rightarrow> string \<Rightarrow> db \<Rightarrow> error + account option" where
  "getAccountForUser i userId s =
     (case db_select account_unreadable (\<lambda>a. a_id a = i \<and> a_userId a = userId) (Accounts s) of
        Inl err \<Rightarrow> Inl err
      | Inr rows \<Rightarrow> Inr (first_or_null rows))"

record createAccount_input =
  ca_name :: string
  ca_type :: "string field"
  ca_currency :: "string field"
  ca_startingBalance :: "real field"

definition createAccount_schema :: "jsval \<Rightarrow> createAccount_input option" where
  "createAccount_schema raw =
     (case raw of
        JObj obj \<Rightarrow> do {
          n \<leftarrow> required z_string_min1 obj ''name'';
          t \<leftarrow> optional z_string obj ''type'';
          c \<leftarrow> optional z_string obj ''currency'';
          b \<leftarrow> optional z_number obj ''startingBalance'';
          Some \<lparr>ca_name = n, ca_type = t, ca_currency = c, ca_startingBalance = b\<rparr>
        }
      | _ \<Rightarrow> None)"

definition createAccount :: "createAccount_input \<Rightarrow> api_context \<Rightarrow> env \<Rightarrow> db \<Rightarrow> outcome" where
  "createAccount input ctx e s =
     (case requireUser ctx of
        Inl err \<Rightarrow> (Inl err, s)
      | Inr user \<Rightarrow>
          (let now = env_now e;
               account =
                 \<lparr>ao_id = env_uuid e, ao_userId = user_id user, ao_name = JsVal (ca_name input),
                  ao_type = read_field (ca_type input),
                  ao_currency = read_field (ca_currency input),
                  ao_startingBalance = read_field (ca_startingBalance input),
                  ao_isArchived = JsVal False, ao_createdAt = now, ao_updatedAt = now\<rparr>;
               row =
                 \<lparr>a_id = env_uuid e, a_userId = user_id user, a_name = ca_name input,
                  a_type = to_column (ca_type input),
                  a_currency = to_column (ca_currency input),
                  a_startingBalance = to_column (ca_startingBalance input),
                  a_isArchived = False, a_createdAt = now, a_updatedAt = now\<rparr>
           in case db_insert a_id row (Accounts s) of
                None \<Rightarrow> (Inl ConstraintError, s)
              | Some rows \<Rightarrow> (Inr (AccountData account), s\<lparr>Accounts := rows\<rparr>)))"

record updateAccount_input =
  ua_id :: string
  ua_name :: "string field"
  ua_type :: "string field"
  ua_currency :: "string field"
  ua_startingBalance :: "real field"
  ua_isArchived :: "bool field"

definition updateAccount_schema :: "jsval \<Rightarrow> updateAccount_input option" where
  "updateAccount_schema raw =
     (case raw of
        JObj obj \<Rightarrow> do {
          i \<leftarrow> required z_string obj ''id'';
          n \<leftarrow> optional z_string_min1 obj ''name'';
          t \<leftarrow> optional z_string obj ''type'';
          c \<leftarrow> optional z_string obj ''currency'';
          b \<leftarrow> optional z_number obj ''startingBalance'';
          a \<leftarrow> optional z_boolean obj ''isArchived'';
          Some \<lparr>ua_id = i, ua_name = n, ua_type = t, ua_currency = c,
                ua_startingBalance = b, ua_isArchived = a\<rparr>
        }
      | _ \<Rightarrow> None)"

definition updateAccount :: "updateAccount_input \<Rightarrow> api_context \<Rightarrow> env \<Rightarrow> db \<Rightarrow> outcome" where
  "updateAccount input ctx e s =
     (case requireUser ctx of
        Inl err \<Rightarrow> (Inl err, s)
      | Inr user \<Rightarrow>
          (case getAccountForUser (ua_id input) (user_id user) s of
             Inl err \<Rightarrow> (Inl err, s)
           | Inr None \<Rightarrow> (Inl (ActionError NOT_FOUND ''Account not found.''), s)
           | Inr (Some account) \<Rightarrow>
               (let now = env_now e;
                    rows =
                      db_update
                        (\<lambda>r. r\<lparr>a_name := coalesce (ua_name input) (a_name account),
                                a_type := coalesce_null (ua_type input) (a_type account),
                                a_currency := coalesce_null (ua_currency input) (a_currency account),
                                a_startingBalance :=
                                  coalesce_null (ua_startingBalance input) (a_startingBalance account),
                                a_isArchived := coalesce (ua_isArchived input) (a_isArchived account),
                                a_updatedAt := now\<rparr>)
                        (\<lambda>r. a_id r = ua_id input \<and> a_userId r = user_id user)
                        (Accounts s);
                    updatedAccount =
                      (account_row account)
                        \<lparr>ao_id := ua_id input,
                         ao_name := spread (ao_name (account_row account)) (ua_name input),
                         ao_type := spread (ao_type (account_row account)) (ua_type input),
                         ao_currency := spread (ao_currency (account_row account)) (ua_currency input),
                         ao_startingBalance :=
                           spread (ao_startingBalance (account_row account)) (ua_startingBalance input),
                         ao_isArchived :=
                           spread (ao_isArchived (account_row account)) (ua_isArchived input),
                         ao_updatedAt := now\<rparr>
                in (Inr (AccountData updatedAccount), s\<lparr>Accounts := rows\<rparr>))))"

record id_input =
  in_id :: string

definition id_schema :: "jsval \<Rightarrow> id_input option" where
  "id_schema raw =
     (case raw of
        JObj obj \<Rightarrow> do {
          i \<leftarrow> required z_string obj ''id'';
          Some \<lparr>in_id = i\<rparr>
        }
      | _ \<Rightarrow> None)"

definition archiveAccount :: "id_input \<Rightarrow> api_context \<Rightarrow> env \<Rightarrow> db \<Rightarrow> outcome" where
  "archiveAccount input ctx e s =
     (case requireUser ctx of
        Inl err \<Rightarrow> (Inl err, s)
      | Inr user \<Rightarrow>
          (case getAccountForUser (in_id input) (user_id user) s of
             Inl err \<Rightarrow> (Inl err, s)
           | Inr None \<Rightarrow> (Inl (ActionError NOT_FOUND ''Account not found.''), s)
           | Inr (Some account) \<Rightarrow>
               (let now = env_now e;
                    rows =
                      db_update
                        (\<lambda>r. r\<lparr>a_isArchived := True, a_updatedAt := now\<rparr>)
                        (\<lambda>r. a_id r = in_id input \<and> a_userId r = user_id user)
                        (Accounts s)
                in (Inr (AccountData
                          ((account_row account)\<lparr>ao_isArchived := JsVal True, ao_updatedAt := now\<rparr>)),
                    s\<lparr>Accounts := rows\<rparr>))))"

record list_input =
  li_includeArchived :: bool

definition list_schema :: "jsval \<Rightarrow> list_input option" where
  "list_schema raw =
     (case raw of
        JObj obj \<Rightarrow> do {
          b \<leftarrow> with_default z_boolean False obj ''includeArchived'';
          Some \<lparr>li_includeArchived = b\<rparr>
        }
      | _ \<Rightarrow> None)"

definition listAccounts :: "list_input \<Rightarrow> api_context \<Rightarrow> env \<Rightarrow> db \<Rightarrow> outcome" where
  "listAccounts input ctx e s =
     (case requireUser ctx of
        Inl err \<Rightarrow> (Inl err, s)
      | Inr user \<Rightarrow>
          (case db_select account_unreadable
                  (if li_includeArchived input then (\<lambda>r. a_userId r = user_id user)
                   else (\<lambda>r. a_userId r = user_id user \<and> a_isArchived r = False))
                  (Accounts s) of
             Inl err \<Rightarrow> (Inl err, s)
           | Inr accounts \<Rightarrow> (Inr (AccountItems accounts (length accounts)), s)))"

section \<open>Category actions\<close>

definition getCategoryForUser :: "string \<Rightarrow> string \<Rightarrow> db \<Rightarrow> error + category option" where
  "getCategoryForUser i userId s =
     (case db_select category_unreadable (\<lambda>c. c_id c = i \<and> c_userId c = userId) (Categories s) of
        Inl err \<Rightarrow> Inl err
      | Inr rows \<Rightarrow> Inr (first_or_null rows))"

record createCategory_input =
  cc_name :: string
  cc_type :: "kind field"
  cc_icon :: "string field"
  cc_parentCategoryId :: "string field"
  cc_sortOrder :: "real field"

definition createCategory_schema :: "jsval \<Rightarrow> createCategory_input option" where
  "createCategory_schema raw =
     (case raw of
        JObj obj \<Rightarrow> do {
          n \<leftarrow> required z_string_min1 obj ''name'';
          t \<leftarrow> optional z_enum_kind obj ''type'';
          i \<leftarrow> optional z_string obj ''icon'';
          p \<leftarrow> optional z_string obj ''parentCategoryId'';
          so \<leftarrow> optional z_number obj ''sortOrder'';
          Some \<lparr>cc_name = n, cc_type = t, cc_icon = i, cc_parentCategoryId = p,
                cc_sortOrder = so\<rparr>
        }
      | _ \<Rightarrow> None)"

definition createCategory :: "createCategory_input \<Rightarrow> api_context \<Rightarrow> env \<Rightarrow> db \<Rightarrow> outcome" where
  "createCategory input ctx e s =
     (case requireUser ctx of
        Inl err \<Rightarrow> (Inl err, s)
      | Inr user \<Rightarrow>
          (let now = env_now e;
               category =
                 \<lparr>co_id = env_uuid e, co_userId = user_id user, co_name = JsVal (cc_name input),
                  co_type = read_field (cc_type input),
                  co_icon = read_field (cc_icon input),
                  co_parentCategoryId = read_field (cc_parentCategoryId input),
                  co_sortOrder = read_field (cc_sortOrder input),
                  co_isArchived = JsVal False, co_createdAt = now, co_updatedAt = now\<rparr>;
               row =
                 \<lparr>c_id = env_uuid e, c_userId = user_id user, c_name = cc_name input,
                  c_type = to_column (cc_type input),
                  c_icon = to_column (cc_icon input),
                  c_parentCategoryId = to_column (cc_parentCategoryId input),
                  c_sortOrder = to_column (cc_sortOrder input),
                  c_isArchived = False, c_createdAt = now, c_updatedAt = now\<rparr>
           in case db_insert c_id row (Categories s) of
                None \<Rightarrow> (Inl ConstraintError, s)
              | Some rows \<Rightarrow> (Inr (CategoryData category), s\<lparr>Categories := rows\<rparr>)))"

record updateCategory_input =
  uc_id :: string
  uc_name :: "string field"
  uc_type :: "kind field"
  uc_icon :: "string field"
  uc_parentCategoryId :: "string field"
  uc_sortOrder :: "real field"
  uc_isArchived :: "bool field"

definition updateCategory_schema :: "jsval \<Rightarrow> updateCategory_input option" where
  "updateCategory_schema raw =
     (case raw of
        JObj obj \<Rightarrow> do {
          i \<leftarrow> required z_string obj ''id'';
          n \<leftarrow> optional z_string_min1 obj ''name'';
          t \<leftarrow> optional z_enum_kind obj ''type'';
          ic \<leftarrow> optional z_string obj ''icon'';
          p \<leftarrow> optional z_string obj ''parentCategoryId'';
          so \<leftarrow> optional z_number obj ''sortOrder'';
          a \<leftarrow> optional z_boolean obj ''isArchived'';
          Some \<lparr>uc_id = i, uc_name = n, uc_type = t, uc_icon = ic, uc_parentCategoryId = p,
                uc_sortOrder = so, uc_isArchived = a\<rparr>
        }
      | _ \<Rightarrow> None)"

definition updateCategory :: "updateCategory_input \<Rightarrow> api_context \<Rightarrow> env \<Rightarrow> db \<Rightarrow> outcome" where
  "updateCategory input ctx e s =
     (case requireUser ctx of
        Inl err \<Rightarrow> (Inl err, s)
      | Inr user \<Rightarrow>
          (case getCategoryForUser (uc_id input) (user_id user) s of
             Inl err \<Rightarrow> (Inl err, s)
           | Inr None \<Rightarrow> (Inl (ActionError NOT_FOUND ''Category not found.''), s)
           | Inr (Some category) \<Rightarrow>
               (let now = env_now e;
                    rows =
                      db_update
                        (\<lambda>r. r\<lparr>c_name := coalesce (uc_name input) (c_name category),
                                c_type := coalesce_null (uc_type input) (c_type category),
                                c_icon := coalesce_null (uc_icon input) (c_icon category),
                                c_parentCategoryId :=
                                  coalesce_null (uc_parentCategoryId input) (c_parentCategoryId category),
                                c_sortOrder := coalesce_null (uc_sortOrder input) (c_sortOrder category),
                                c_isArchived := coalesce (uc_isArchived input) (c_isArchived category),
                                c_updatedAt := now\<rparr>)
                        (\<lambda>r. c_id r = uc_id input \<and> c_userId r = user_id user)
                        (Categories s);
                    updatedCategory =
                      (category_row category)
                        \<lparr>co_id := uc_id input,
                         co_name := spread (co_name (category_row category)) (uc_name input),
                         co_type := spread (co_type (category_row category)) (uc_type input),
                         co_icon := spread (co_icon (category_row category)) (uc_icon input),
                         co_parentCategoryId :=
                           spread (co_parentCategoryId (category_row category)) (uc_parentCategoryId input),
                         co_sortOrder := spread (co_sortOrder (category_row category)) (uc_sortOrder input),
                         co_isArchived :=
                           spread (co_isArchived (category_row category)) (uc_isArchived input),
                         co_updatedAt := now\<rparr>
                in (Inr (CategoryData updatedCategory), s\<lparr>Categories := rows\<rparr>))))"

definition archiveCategory :: "id_input \<Rightarrow> api_context \<Rightarrow> env \<Rightarrow> db \<Rightarrow> outcome" where
  "archiveCategory input ctx e s =
     (case requireUser ctx of
        Inl err \<Rightarrow> (Inl err, s)
      | Inr user \<Rightarrow>
          (case getCategoryForUser (in_id input) (user_id user) s of
             Inl err \<Rightarrow> (Inl err, s)
           | Inr None \<Rightarrow> (Inl (ActionError NOT_FOUND ''Category not found.''), s)
           | Inr (Some category) \<Rightarrow>
               (let now = env_now e;
                    rows =
                      db_update
                        (\<lambda>r. r\<lparr>c_isArchived := True, c_updatedAt := now\<rparr>)
                        (\<lambda>r. c_id r = in_id input \<and> c_userId r = user_id user)
                        (Categories s)
                in (Inr (CategoryData
                          ((category_row category)\<lparr>co_isArchived := JsVal True, co_updatedAt := now\<rparr>)),
                    s\<lparr>Categories := rows\<rparr>))))"

definition listCategories :: "list_input \<Rightarrow> api_context \<Rightarrow> env \<Rightarrow> db \<Rightarrow> outcome" where
  "listCategories input ctx e s =
     (case requireUser ctx of
        Inl err \<Rightarrow> (Inl err, s)
      | Inr user \<Rightarrow>
          (case db_select category_unreadable
                  (if li_includeArchived input then (\<lambda>r. c_userId r = user_id user)
                   else (\<lambda>r. c_userId r = user_id user \<and> c_isArchived r = False))
                  (Categories s) of
             Inl err \<Rightarrow> (Inl err, s)
           | Inr categories \<Rightarrow> (Inr (CategoryItems categories (length categories)), s)))"

section \<open>Transaction actions\<close>

definition getTransactionForUser :: "string \<Rightarrow> string \<Rightarrow> db \<Rightarrow> error + transaction option" where
  "getTransactionForUser i userId s =
     (case db_select transaction_unreadable (\<lambda>t. t_id t = i \<and> t_userId t = userId) (Transactions s) of
        Inl err \<Rightarrow> Inl err
      | Inr rows \<Rightarrow> Inr (first_or_null rows))"

record createTransaction_input =
  ct_accountId :: "string field"
  ct_categoryId :: "string field"
  ct_type :: kind
  ct_amount :: real
  ct_currency :: "string field"
  ct_transactionDate :: "timestamp field"
  ct_description :: "string field"
  ct_transferAccountId :: "string field"

definition createTransaction_schema ::
  "(jsval \<Rightarrow> timestamp option) \<Rightarrow> jsval \<Rightarrow> createTransaction_input option" where
  "createTransaction_schema toDate raw =
     (case raw of
        JObj obj \<Rightarrow> do {
          a \<leftarrow> optional z_string obj ''accountId'';
          c \<leftarrow> optional z_string obj ''categoryId'';
          t \<leftarrow> required z_enum_kind obj ''type'';
          m \<leftarrow> required z_number_positive obj ''amount'';
          cu \<leftarrow> optional z_string obj ''currency'';
          d \<leftarrow> optional (z_coerce_date toDate) obj ''transactionDate'';
          de \<leftarrow> optional z_string obj ''description'';
          tr \<leftarrow> optional z_string obj ''transferAccountId'';
          Some \<lparr>ct_accountId = a, ct_categoryId = c, ct_type = t, ct_amount = m,
                ct_currency = cu, ct_transactionDate = d, ct_description = de,
                ct_transferAccountId = tr\<rparr>
        }
      | _ \<Rightarrow> None)"

text \<open>
  \<open>accountId\<close> and \<open>categoryId\<close> are declared with \<open>references\<close>: the store refuses
  to insert a transaction, or to update one, when the value written to either column is
  not null and is not the id of a stored account, respectively category (of whatever
  owner).  \<open>transferAccountId\<close> carries no reference.
\<close>

definition foreign_keys_ok :: "db \<Rightarrow> transaction \<Rightarrow> bool" where
  "foreign_keys_ok s t =
     ((case t_accountId t of None \<Rightarrow> True | Some a \<Rightarrow> a \<in> set (map a_id (Accounts s)))
      \<and> (case t_categoryId t of None \<Rightarrow> True | Some c \<Rightarrow> c \<in> set (map c_id (Categories s))))"

definition createTransaction ::
  "createTransaction_input \<Rightarrow> api_context \<Rightarrow> env \<Rightarrow> db \<Rightarrow> outcome" where
  "createTransaction input ctx e s =
     (case requireUser ctx of
        Inl err \<Rightarrow> (Inl err, s)
      | Inr user \<Rightarrow>
          (let now = env_now e;
               transaction =
                 \<lparr>to_id = env_uuid e, to_userId = user_id user,
                  to_accountId = read_field (ct_accountId input),
                  to_categoryId = read_field (ct_categoryId input),
                  to_type = JsVal (ct_type input), to_amount = JsVal (ct_amount input),
                  to_currency = read_field (ct_currency input),
                  to_transactionDate = JsVal (coalesce (ct_transactionDate input) (env_now2 e)),
                  to_description = read_field (ct_description input),
                  to_transferAccountId = read_field (ct_transferAccountId input),
                  to_createdAt = now, to_updatedAt = now\<rparr>;
               row =
                 \<lparr>t_id = env_uuid e, t_userId = user_id user,
                  t_accountId = to_column (ct_accountId input),
                  t_categoryId = to_column (ct_categoryId input),
                  t_type = ct_type input, t_amount = ct_amount input,
                  t_currency = to_column (ct_currency input),
                  t_transactionDate = coalesce (ct_transactionDate input) (env_now2 e),
                  t_description = to_column (ct_description input),
                  t_transferAccountId = to_column (ct_transferAccountId input),
                  t_createdAt = now, t_updatedAt = now\<rparr>
           in if \<not> foreign_keys_ok s row then (Inl ConstraintError, s)
              else
                (case db_insert t_id row (Transactions s) of
                   None \<Rightarrow> (Inl ConstraintError, s)
                 | Some rows \<Rightarrow> (Inr (TransactionData transaction), s\<lparr>Transactions := rows\<rparr>))))"

record updateTransaction_input =
  ut_id :: string
  ut_accountId :: "string field"
  ut_categoryId :: "string field"
  ut_type :: "kind field"
  ut_amount :: "real field"
  ut_currency :: "string field"
  ut_transactionDate :: "timestamp field"
  ut_description :: "string field"
  ut_transferAccountId :: "string field"

definition updateTransaction_schema ::
  "(jsval \<Rightarrow> timestamp option) \<Rightarrow> jsval \<Rightarrow> updateTransaction_input option" where
  "updateTransaction_schema toDate raw =
     (case raw of
        JObj obj \<Rightarrow> do {
          i \<leftarrow> required z_string obj ''id'';
          a \<leftarrow> optional z_string obj ''accountId'';
          c \<leftarrow> optional z_string obj ''categoryId'';
          t \<leftarrow> optional z_enum_kind obj ''type'';
          m \<leftarrow> optional z_number_positive obj ''amount'';
          cu \<leftarrow> optional z_string obj ''currency'';
          d \<leftarrow> optional (z_coerce_date toDate) obj ''transactionDate'';
          de \<leftarrow> optional z_string obj ''description'';
          tr \<leftarrow> optional z_string obj ''transferAccountId'';
          Some \<lparr>ut_id = i, ut_accountId = a, ut_categoryId = c, ut_type = t, ut_amount = m,
                ut_currency = cu, ut_transactionDate = d, ut_description = de,
                ut_transferAccountId = tr\<rparr>
        }
      | _ \<Rightarrow> None)"

definition updateTransaction ::
  "updateTransaction_input \<Rightarrow> api_context \<Rightarrow> env \<Rightarrow> db \<Rightarrow> outcome" where
  "updateTransaction input ctx e s =
     (case requireUser ctx of
        Inl err \<Rightarrow> (Inl err, s)
      | Inr user \<Rightarrow>
          (case getTransactionForUser (ut_id input) (user_id user) s of
             Inl err \<Rightarrow> (Inl err, s)
           | Inr None \<Rightarrow> (Inl (ActionError NOT_FOUND ''Transaction not found.''), s)
           | Inr (Some transaction) \<Rightarrow>
               (let now = env_now e;
                    values =
                      (\<lambda>r. r\<lparr>t_accountId := coalesce_null (ut_accountId input) (t_accountId transaction),
                              t_categoryId :=
                                coalesce_null (ut_categoryId input) (t_categoryId transaction),
                              t_type := coalesce (ut_type input) (t_type transaction),
                              t_amount := coalesce (ut_amount input) (t_amount transaction),
                              t_currency := coalesce_null (ut_currency input) (t_currency transaction),
                              t_transactionDate :=
                                coalesce (ut_transactionDate input) (t_transactionDate transaction),
                              t_description :=
                                coalesce_null (ut_description input) (t_description transaction),
                              t_transferAccountId :=
                                coalesce_null (ut_transferAccountId input)
                                  (t_transferAccountId transaction),
                              t_updatedAt := now\<rparr>);
                    wh = (\<lambda>r. t_id r = ut_id input \<and> t_userId r = user_id user);
                    updatedTransaction =
                      (transaction_row transaction)
                        \<lparr>to_id := ut_id input,
                         to_accountId :=
                           spread (to_accountId (transaction_row transaction)) (ut_accountId input),
                         to_categoryId :=
                           spread (to_categoryId (transaction_row transaction)) (ut_categoryId input),
                         to_type := spread (to_type (transaction_row transaction)) (ut_type input),
                         to_amount := spread (to_amount (transaction_row transaction)) (ut_amount input),
                         to_currency :=
                           spread (to_currency (transaction_row transaction)) (ut_currency input),
                         to_transactionDate :=
                           spread (to_transactionDate (transaction_row transaction))
                             (ut_transactionDate input),
                         to_description :=
                           spread (to_description (transaction_row transaction)) (ut_description input),
                         to_transferAccountId :=
                           spread (to_transferAccountId (transaction_row transaction))
                             (ut_transferAccountId input),
                         to_updatedAt := now\<rparr>
                in if list_ex (\<lambda>r. wh r \<and> \<not> foreign_keys_ok s (values r)) (Transactions s)
                   then (Inl ConstraintError, s)
                   else (Inr (TransactionData updatedTransaction),
                         s\<lparr>Transactions := db_update values wh (Transactions s)\<rparr>))))"

definition deleteTransaction :: "id_input \<Rightarrow> api_context \<Rightarrow> env \<Rightarrow> db \<Rightarrow> outcome" where
  "deleteTransaction input ctx e s =
     (case requireUser ctx of
        Inl err \<Rightarrow> (Inl err, s)
      | Inr user \<Rightarrow>
          (case getTransactionForUser (in_id input) (user_id user) s of
             Inl err \<Rightarrow> (Inl err, s)
           | Inr None \<Rightarrow> (Inl (ActionError NOT_FOUND ''Transaction not found.''), s)
           | Inr (Some transaction) \<Rightarrow>
               (Inr Success,
                s\<lparr>Transactions :=
                    db_delete (\<lambda>r. t_id r = in_id input \<and> t_userId r = user_id user)
                      (Transactions s)\<rparr>)))"

record listTransactions_input =
  lt_accountId :: "string field"
  lt_categoryId :: "string field"
  lt_type :: "kind field"
  lt_page :: int
  lt_pageSize :: int

definition listTransactions_schema :: "jsval \<Rightarrow> listTransactions_input option" where
  "listTransactions_schema raw =
     (case raw of
        JObj obj \<Rightarrow> do {
          a \<leftarrow> optional z_string obj ''accountId'';
          c \<leftarrow> optional z_string obj ''categoryId'';
          t \<leftarrow> optional z_enum_kind obj ''type'';
          p \<leftarrow> with_default z_number_int_positive 1 obj ''page'';
          ps \<leftarrow> with_default z_number_int_positive 20 obj ''pageSize'';
          Some \<lparr>lt_accountId = a, lt_categoryId = c, lt_type = t, lt_page = p, lt_pageSize = ps\<rparr>
        }
      | _ \<Rightarrow> None)"

text \<open>
  \<open>if (input.accountId)\<close> tests truthiness: \<open>undefined\<close> and the empty string are both
  falsy.  The members of the enum are non-empty strings, so a given \<open>type\<close> is truthy.
\<close>

fun truthy_string :: "string field \<Rightarrow> string option" where
  "truthy_string (Given v) = (if v = [] then None else Some v)"
| "truthy_string Undef = None"
| "truthy_string Absent = None"

text \<open>
  \<open>.limit(n).offset(k)\<close> over the rows in storage order.  The limit and the offset are
  bound as doubles: the client refuses \<open>Infinity\<close>, and the store refuses a value of
  \<open>2^63\<close> or more, which is no 64-bit integer.  The store reads a negative limit as no
  limit and a negative offset as zero.  Only the rows of the page are decoded.
\<close>

definition limit_offset :: "int \<Rightarrow> int \<Rightarrow> 'r list \<Rightarrow> error + 'r list" where
  "limit_offset n k rows =
     (if js_infinite n \<or> js_infinite k then Inl RangeError
      else if 2 ^ 63 \<le> n \<or> 2 ^ 63 \<le> k then Inl MismatchError
      else Inr (let rest = drop (nat k) rows in if n < 0 then rest else take (nat n) rest))"

definition db_select_page ::
  "('r \<Rightarrow> bool) \<Rightarrow> ('r \<Rightarrow> bool) \<Rightarrow> int \<Rightarrow> int \<Rightarrow> 'r list \<Rightarrow> error + 'r list" where
  "db_select_page unreadable wh n k rows =
     (case limit_offset n k (filter wh rows) of
        Inl err \<Rightarrow> Inl err
      | Inr found \<Rightarrow> if list_ex unreadable found then Inl RangeError else Inr found)"

definition and_all :: "('r \<Rightarrow> bool) list \<Rightarrow> 'r \<Rightarrow> bool" where
  "and_all fs r = list_all (\<lambda>f. f r) fs"

definition listTransactions ::
  "listTransactions_input \<Rightarrow> api_context \<Rightarrow> env \<Rightarrow> db \<Rightarrow> outcome" where
  "listTransactions input ctx e s =
     (case requireUser ctx of
        Inl err \<Rightarrow> (Inl err, s)
      | Inr user \<Rightarrow>
          (let offset = js_times (js_minus (lt_page input) 1) (lt_pageSize input);
               filters =
                 [\<lambda>r. t_userId r = user_id user]
                 @ (case truthy_string (lt_accountId input) of
                      None \<Rightarrow> []
                    | Some a \<Rightarrow> [\<lambda>r. t_accountId r = Some a])
                 @ (case truthy_string (lt_categoryId input) of
                      None \<Rightarrow> []
                    | Some c \<Rightarrow> [\<lambda>r. t_categoryId r = Some c])
                 @ (case lt_type input of
                      Given k \<Rightarrow> [\<lambda>r. t_type r = k]
                    | _ \<Rightarrow> []);
               whereClause = (if length filters = 1 then hd filters else and_all filters)
           in case db_select_page transaction_unreadable whereClause (lt_pageSize input) offset
                     (Transactions s) of
                Inl err \<Rightarrow> (Inl err, s)
              | Inr transactions \<Rightarrow>
                  (Inr (TransactionItems transactions (length transactions)
                          (lt_page input) (lt_pageSize input)),
                   s)))"

section \<open>The action surface\<close>

text \<open>
  A request names an exported action and carries the raw input.  The action wrapper
  parses the input with the action's schema and calls the handler only when it is
  accepted.
\<close>

datatype request =
    CreateAccount jsval
  | UpdateAccount jsval
  | ArchiveAccount jsval
  | ListAccounts jsval
  | CreateCategory jsval
  | UpdateCategory jsval
  | ArchiveCategory jsval
  | ListCategories jsval
  | CreateTransaction jsval
  | UpdateTransaction jsval
  | DeleteTransaction jsval
  | ListTransactions jsval

definition defineAction ::
  "(jsval \<Rightarrow> 'i option) \<Rightarrow> ('i \<Rightarrow> api_context \<Rightarrow> env \<Rightarrow> db \<Rightarrow> outcome) \<Rightarrow>
   jsval \<Rightarrow> api_context \<Rightarrow> env \<Rightarrow> db \<Rightarrow> outcome" where
  "defineAction schema handler raw ctx e s =
     (case schema raw of
        None \<Rightarrow> (Inl ActionInputError, s)
      | Some input \<Rightarrow> handler input ctx e s)"

fun server :: "(jsval \<Rightarrow> timestamp option) \<Rightarrow> request \<Rightarrow> api_context \<Rightarrow> env \<Rightarrow> db \<Rightarrow> outcome" where
  "server toDate (CreateAccount raw) = defineAction createAccount_schema createAccount raw"
| "server toDate (UpdateAccount raw) = defineAction updateAccount_schema updateAccount raw"
| "server toDate (ArchiveAccount raw) = defineAction id_schema archiveAccount raw"
| "server toDate (ListAccounts raw) = defineAction list_schema listAccounts raw"
| "server toDate (CreateCategory raw) = defineAction createCategory_schema createCategory raw"
| "server toDate (UpdateCategory raw) = defineAction updateCategory_schema updateCategory raw"
| "server toDate (ArchiveCategory raw) = defineAction id_schema archiveCategory raw"
| "server toDate (ListCategories raw) = defineAction list_schema listCategories raw"
| "server toDate (CreateTransaction raw) =
     defineAction (createTransaction_schema toDate) createTransaction raw"
| "server toDate (UpdateTransaction raw) =
     defineAction (updateTransaction_schema toDate) updateTransaction raw"
| "server toDate (DeleteTransaction raw) = defineAction id_schema deleteTransaction raw"
| "server toDate (ListTransactions raw) = defineAction listTransactions_schema listTransactions raw"

section \<open>Properties as predicates\<close>











text \<open>
  The row of a table that a scoped statement of the caller addresses, as it is stored
  (no decoding takes place).
\<close>

definition stored_account :: "string \<Rightarrow> string \<Rightarrow> db \<Rightarrow> account option" where
  "stored_account i userId s = find (\<lambda>r. a_id r = i \<and> a_userId r = userId) (Accounts s)"

definition stored_category :: "string \<Rightarrow> string \<Rightarrow> db \<Rightarrow> category option" where
  "stored_category i userId s = find (\<lambda>r. c_id r = i \<and> c_userId r = userId) (Categories s)"

definition stored_transaction :: "string \<Rightarrow> string \<Rightarrow> db \<Rightarrow> transaction option" where
  "stored_transaction i userId s =
     find (\<lambda>r. t_id r = i \<and> t_userId r = userId) (Transactions s)"

text \<open>A request succeeded.\<close>

fun succeeded :: "error + response \<Rightarrow> bool" where
  "succeeded (Inl err) = False"
| "succeeded (Inr res) = True"



text \<open>A sequence of requests, each with its caller and its environment, run in order.\<close>

fun run :: "(jsval \<Rightarrow> timestamp option) \<Rightarrow> (request \<times> api_context \<times> env) list \<Rightarrow> db \<Rightarrow> db" where
  "run toDate [] s = s"
| "run toDate ((req, ctx, e) # rest) s = run toDate rest (snd (server toDate req ctx e s))"



text \<open>The rows that the two lists and the transaction list select for a caller.\<close>

definition listed_accounts :: "string \<Rightarrow> bool \<Rightarrow> db \<Rightarrow> account list" where
  "listed_accounts userId includeArchived s =
     filter (\<lambda>a. a_userId a = userId \<and> (includeArchived \<or> a_isArchived a = False)) (Accounts s)"

definition listed_categories :: "string \<Rightarrow> bool \<Rightarrow> db \<Rightarrow> category list" where
  "listed_categories userId includeArchived s =
     filter (\<lambda>c. c_userId c = userId \<and> (includeArchived \<or> c_isArchived c = False))
       (Categories s)"





text \<open>A key of a validated input that does not hold \<open>undefined\<close>.\<close>

fun no_undefined :: "'a field \<Rightarrow> bool" where
  "no_undefined Undef = False"
| "no_undefined Absent = True"
| "no_undefined (Given v) = True"

text \<open>The rows of every other owner are the same in two stores.\<close>

definition same_for_others :: "string \<Rightarrow> db \<Rightarrow> db \<Rightarrow> bool" where
  "same_for_others userId s s' =
     (filter (\<lambda>r. a_userId r \<noteq> userId) (Accounts s')
        = filter (\<lambda>r. a_userId r \<noteq> userId) (Accounts s)
      \<and> filter (\<lambda>r. c_userId r \<noteq> userId) (Categories s')
        = filter (\<lambda>r. c_userId r \<noteq> userId) (Categories s)
      \<and> filter (\<lambda>r. t_userId r \<noteq> userId) (Transactions s')
        = filter (\<lambda>r. t_userId r \<noteq> userId) (Transactions s))"

text \<open>Every stored transaction has a strictly positive amount.\<close>

definition amounts_positive :: "db \<Rightarrow> bool" where
  "amounts_positive s = list_all (\<lambda>t. 0 < t_amount t) (Transactions s)"

text \<open>The primary keys of a store are distinct.\<close>

definition primary_keys :: "db \<Rightarrow> bool" where
  "primary_keys s =
     (distinct (map a_id (Accounts s)) \<and> distinct (map c_id (Categories s))
      \<and> distinct (map t_id (Transactions s)))"

section \<open>A small store\<close>

definition signed_in :: "string \<Rightarrow> api_context" where
  "signed_in uid = \<lparr>ctx_locals = Some \<lparr>locals_user = Some \<lparr>user_id = uid\<rparr>\<rparr>\<rparr>"

definition anonymous :: api_context where
  "anonymous = \<lparr>ctx_locals = Some \<lparr>locals_user = None\<rparr>\<rparr>"

definition env1 :: env where
  "env1 = \<lparr>env_uuid = ''u9'', env_now = 1000, env_now2 = 1001\<rparr>"

definition env2 :: env where
  "env2 = \<lparr>env_uuid = ''u10'', env_now = 2000, env_now2 = 2001\<rparr>"

definition cash :: account where
  "cash = \<lparr>a_id = ''a1'', a_userId = ''alice'', a_name = ''Cash'', a_type = Some ''cash'',
           a_currency = None, a_startingBalance = Some 100, a_isArchived = False,
           a_createdAt = 10, a_updatedAt = 10\<rparr>"

definition old_card :: account where
  "old_card = \<lparr>a_id = ''a2'', a_userId = ''alice'', a_name = ''Card'', a_type = None,
               a_currency = Some ''AED'', a_startingBalance = None, a_isArchived = True,
               a_createdAt = 20, a_updatedAt = 25\<rparr>"

definition bobs_bank :: account where
  "bobs_bank = \<lparr>a_id = ''a3'', a_userId = ''bob'', a_name = ''Bank'', a_type = None,
                a_currency = None, a_startingBalance = None, a_isArchived = False,
                a_createdAt = 30, a_updatedAt = 30\<rparr>"

definition rent :: category where
  "rent = \<lparr>c_id = ''c1'', c_userId = ''alice'', c_name = ''Rent'', c_type = Some Expense,
           c_icon = None, c_parentCategoryId = None, c_sortOrder = Some 1,
           c_isArchived = False, c_createdAt = 11, c_updatedAt = 11\<rparr>"

definition old_salary :: category where
  "old_salary = \<lparr>c_id = ''c2'', c_userId = ''alice'', c_name = ''Salary'', c_type = Some Income,
                 c_icon = None, c_parentCategoryId = None, c_sortOrder = None,
                 c_isArchived = True, c_createdAt = 12, c_updatedAt = 13\<rparr>"

definition tx1 :: transaction where
  "tx1 = \<lparr>t_id = ''t1'', t_userId = ''alice'', t_accountId = Some ''a1'',
          t_categoryId = Some ''c1'', t_type = Expense, t_amount = 50, t_currency = None,
          t_transactionDate = 40, t_description = None, t_transferAccountId = None,
          t_createdAt = 40, t_updatedAt = 40\<rparr>"

definition tx2 :: transaction where
  "tx2 = \<lparr>t_id = ''t2'', t_userId = ''alice'', t_accountId = Some ''a2'',
          t_categoryId = None, t_type = Income, t_amount = 7, t_currency = None,
          t_transactionDate = 41, t_description = Some ''refund'', t_transferAccountId = None,
          t_createdAt = 41, t_updatedAt = 41\<rparr>"

definition tx3 :: transaction where
  "tx3 = \<lparr>t_id = ''t3'', t_userId = ''alice'', t_accountId = None,
          t_categoryId = Some ''c1'', t_type = Expense, t_amount = 3, t_currency = None,
          t_transactionDate = 42, t_description = None, t_transferAccountId = None,
          t_createdAt = 42, t_updatedAt = 42\<rparr>"

definition tx4 :: transaction where
  "tx4 = \<lparr>t_id = ''t4'', t_userId = ''bob'', t_accountId = Some ''a3'',
          t_categoryId = None, t_type = Expense, t_amount = 9, t_currency = None,
          t_transactionDate = 43, t_description = None, t_transferAccountId = None,
          t_createdAt = 43, t_updatedAt = 43\<rparr>"

definition db1 :: db where
  "db1 = \<lparr>Accounts = [cash, old_card, bobs_bank], Categories = [rent, old_salary],
          Transactions = [tx1, tx2, tx3, tx4]\<rparr>"

definition rename_cash :: updateAccount_input where
  "rename_cash =
     \<lparr>ua_id = ''a1'', ua_name = Given ''Wallet'', ua_type = Absent, ua_currency = Given ''AED'',
      ua_startingBalance = Absent, ua_isArchived = Absent\<rparr>"

definition retype_rent :: updateCategory_input where
  "retype_rent =
     \<lparr>uc_id = ''c1'', uc_name = Absent, uc_type = Given Income, uc_icon = Absent,
      uc_parentCategoryId = Absent, uc_sortOrder = Absent, uc_isArchived = Absent\<rparr>"

definition reprice_tx1 :: updateTransaction_input where
  "reprice_tx1 =
     \<lparr>ut_id = ''t1'', ut_accountId = Absent, ut_categoryId = Absent, ut_type = Absent,
      ut_amount = Given 75, ut_currency = Absent, ut_transactionDate = Absent,
      ut_description = Given [], ut_transferAccountId = Absent\<rparr>"






definition vault :: account where
  "vault = \<lparr>a_id = ''u9'', a_userId = ''alice'', a_name = ''Vault'', a_type = None,
            a_currency = None, a_startingBalance = Some 9007199254740992, a_isArchived = False,
            a_createdAt = 1000, a_updatedAt = 1000\<rparr>"

definition jackpot :: transaction where
  "jackpot = \<lparr>t_id = ''u9'', t_userId = ''alice'', t_accountId = None, t_categoryId = None,
              t_type = Income, t_amount = 9007199254740992, t_currency = None,
              t_transactionDate = 1001, t_description = None, t_transferAccountId = None,
              t_createdAt = 1000, t_updatedAt = 1000\<rparr>"

definition bulky :: category where
  "bulky = \<lparr>c_id = ''u10'', c_userId = ''alice'', c_name = ''Bulky'', c_type = None,
            c_icon = None, c_parentCategoryId = None, c_sortOrder = Some 9007199254740992,
            c_isArchived = False, c_createdAt = 2000, c_updatedAt = 2000\<rparr>"


definition epoch_ms :: "jsval \<Rightarrow> timestamp option" where
  "epoch_ms v = (case v of JNum r \<Rightarrow> Some \<lfloor>r\<rfloor> | _ \<Rightarrow> None)"

section \<open>Unfolding rules\<close>

lemmas ex_defs = signed_in_def anonymous_def env1_def env2_def cash_def old_card_def bobs_bank_def rent_def old_salary_def tx1_def tx2_def tx3_def tx4_def db1_def epoch_ms_def

lemmas schema_defs = createAccount_schema_def updateAccount_schema_def id_schema_def list_schema_def
  createCategory_schema_def updateCategory_schema_def createTransaction_schema_def
  updateTransaction_schema_def listTransactions_schema_def required_def optional_def with_default_def
  get_prop_def has_key_def z_string_def z_string_min1_def z_number_def z_number_positive_def
  z_number_int_positive_def z_boolean_def z_enum_kind_def z_coerce_date_def

lemmas store_defs = db_select_def db_update_def db_delete_def db_insert_def first_or_null_def
  unsafe_integer_def account_unreadable_def category_unreadable_def transaction_unreadable_def
  getAccountForUser_def getCategoryForUser_def getTransactionForUser_def requireUser_def

section \<open>A failed request changes nothing\<close>

lemma createAccount_fail: "fst (createAccount inp ctx e s) = Inl err \<Longrightarrow> snd (createAccount inp ctx e s) = s"
  by (auto simp: createAccount_def Let_def split: sum.splits option.splits if_splits)
lemma updateAccount_fail: "fst (updateAccount inp ctx e s) = Inl err \<Longrightarrow> snd (updateAccount inp ctx e s) = s"
  by (auto simp: updateAccount_def Let_def split: sum.splits option.splits if_splits)
lemma archiveAccount_fail: "fst (archiveAccount inp ctx e s) = Inl err \<Longrightarrow> snd (archiveAccount inp ctx e s) = s"
  by (auto simp: archiveAccount_def Let_def split: sum.splits option.splits if_splits)
lemma listAccounts_fail: "fst (listAccounts inp ctx e s) = Inl err \<Longrightarrow> snd (listAccounts inp ctx e s) = s"
  by (auto simp: listAccounts_def Let_def split: sum.splits option.splits if_splits)
lemma createCategory_fail: "fst (createCategory inp ctx e s) = Inl err \<Longrightarrow> snd (createCategory inp ctx e s) = s"
  by (auto simp: createCategory_def Let_def split: sum.splits option.splits if_splits)
lemma updateCategory_fail: "fst (updateCategory inp ctx e s) = Inl err \<Longrightarrow> snd (updateCategory inp ctx e s) = s"
  by (auto simp: updateCategory_def Let_def split: sum.splits option.splits if_splits)
lemma archiveCategory_fail: "fst (archiveCategory inp ctx e s) = Inl err \<Longrightarrow> snd (archiveCategory inp ctx e s) = s"
  by (auto simp: archiveCategory_def Let_def split: sum.splits option.splits if_splits)
lemma listCategories_fail: "fst (listCategories inp ctx e s) = Inl err \<Longrightarrow> snd (listCategories inp ctx e s) = s"
  by (auto simp: listCategories_def Let_def split: sum.splits option.splits if_splits)
lemma createTransaction_fail: "fst (createTransaction inp ctx e s) = Inl err \<Longrightarrow> snd (createTransaction inp ctx e s) = s"
  by (auto simp: createTransaction_def Let_def split: sum.splits option.splits if_splits)
lemma updateTransaction_fail: "fst (updateTransaction inp ctx e s) = Inl err \<Longrightarrow> snd (updateTransaction inp ctx e s) = s"
  by (auto simp: updateTransaction_def Let_def split: sum.splits option.splits if_splits)
lemma deleteTransaction_fail: "fst (deleteTransaction inp ctx e s) = Inl err \<Longrightarrow> snd (deleteTransaction inp ctx e s) = s"
  by (auto simp: deleteTransaction_def Let_def split: sum.splits option.splits if_splits)
lemma listTransactions_fail: "fst (listTransactions inp ctx e s) = Inl err \<Longrightarrow> snd (listTransactions inp ctx e s) = s"
  by (auto simp: listTransactions_def Let_def split: sum.splits option.splits if_splits)

lemma defineAction_fail:
  assumes "\<And>inp. fst (h inp ctx e s) = Inl err \<Longrightarrow> snd (h inp ctx e s) = s"
    and "fst (defineAction sch h raw ctx e s) = Inl err"
  shows "snd (defineAction sch h raw ctx e s) = s"
  using assms by (auto simp: defineAction_def split: option.splits)

text \<open>
  Claim C2.  Whatever the action, the caller and the store, a request that ends in an
  error (no caller identity, no such row for the caller, input refused by the schema, or a
  statement refused by the store) leaves the store exactly as it was: every failure
  comes before the handler's one mutating statement, and once that statement has run
  the request succeeds.
\<close>

theorem failure_leaves_store_unchanged:
  assumes "fst (server toDate req ctx e s) = Inl err"
  shows "snd (server toDate req ctx e s) = s"
proof (cases req)
  case (CreateAccount raw)
  with assms show ?thesis by (simp add: defineAction_fail [OF createAccount_fail])
next
  case (UpdateAccount raw)
  with assms show ?thesis by (simp add: defineAction_fail [OF updateAccount_fail])
next
  case (ArchiveAccount raw)
  with assms show ?thesis by (simp add: defineAction_fail [OF archiveAccount_fail])
next
  case (ListAccounts raw)
  with assms show ?thesis by (simp add: defineAction_fail [OF listAccounts_fail])
next
  case (CreateCategory raw)
  with assms show ?thesis by (simp add: defineAction_fail [OF createCategory_fail])
next
  case (UpdateCategory raw)
  with assms show ?thesis by (simp add: defineAction_fail [OF updateCategory_fail])
next
  case (ArchiveCategory raw)
  with assms show ?thesis by (simp add: defineAction_fail [OF archiveCategory_fail])
next
  case (ListCategories raw)
  with assms show ?thesis by (simp add: defineAction_fail [OF listCategories_fail])
next
  case (CreateTransaction raw)
  with assms show ?thesis by (simp add: defineAction_fail [OF createTransaction_fail])
next
  case (UpdateTransaction raw)
  with assms show ?thesis by (simp add: defineAction_fail [OF updateTransaction_fail])
next
  case (DeleteTransaction raw)
  with assms show ?thesis by (simp add: defineAction_fail [OF deleteTransaction_fail])
next
  case (ListTransactions raw)
  with assms show ?thesis by (simp add: defineAction_fail [OF listTransactions_fail])
qed

theorem failure_leaves_store_unchanged_witness:
  "fst (server epoch_ms (UpdateTransaction (JObj [(''id'', JStr ''t4''), (''amount'', JNum 2)]))
         (signed_in ''alice'') env1 db1)
     = Inl (ActionError NOT_FOUND ''Transaction not found.'')
   \<and> snd (server epoch_ms (UpdateTransaction (JObj [(''id'', JStr ''t4''), (''amount'', JNum 2)]))
         (signed_in ''alice'') env1 db1) = db1"
proof -
  have h: "fst (server epoch_ms (UpdateTransaction (JObj [(''id'', JStr ''t4''), (''amount'', JNum 2)]))
         (signed_in ''alice'') env1 db1)
     = Inl (ActionError NOT_FOUND ''Transaction not found.'')"
    by (simp add: defineAction_def schema_defs updateTransaction_def store_defs ex_defs)
  from failure_leaves_store_unchanged [OF h] h show ?thesis by simp
qed

section \<open>Listing\<close>

text \<open>
  Claim C10.  \<open>listTransactions\<close> called with \<open>accountId\<close> given as the empty string
  returns what it returns when \<open>accountId\<close> is left out, for every caller, store and
  remaining input; it does not select the rows whose \<open>accountId\<close> is the empty string.
  The same holds for \<open>categoryId\<close>.
\<close>

theorem empty_string_filter_is_no_filter:
  "listTransactions (inp\<lparr>lt_accountId := Given []\<rparr>) ctx e s
     = listTransactions (inp\<lparr>lt_accountId := Absent\<rparr>) ctx e s
   \<and> listTransactions (inp\<lparr>lt_categoryId := Given []\<rparr>) ctx e s
     = listTransactions (inp\<lparr>lt_categoryId := Absent\<rparr>) ctx e s"
  by (cases "requireUser ctx") (simp_all add: listTransactions_def Let_def cong: sum.case_cong)

lemma requireUser_signed_in: "requireUser (signed_in uid) = Inr \<lparr>user_id = uid\<rparr>"
  by (simp add: requireUser_def signed_in_def)

lemma acc_cols:
  "a_id cash = ''a1''" "a_id old_card = ''a2''" "a_id bobs_bank = ''a3''" "a_id vault = ''u9''"
  "a_userId cash = ''alice''" "a_userId old_card = ''alice''" "a_userId bobs_bank = ''bob''"
  "a_userId vault = ''alice''"
  "a_isArchived cash = False" "a_isArchived old_card = True" "a_isArchived bobs_bank = False"
  "a_isArchived vault = False"
  "account_unreadable cash = False" "account_unreadable old_card = False"
  "account_unreadable bobs_bank = False" "account_unreadable vault = True"
  by (simp_all add: cash_def old_card_def bobs_bank_def vault_def account_unreadable_def
      unsafe_integer_def)

lemma cat_cols:
  "c_id rent = ''c1''" "c_id old_salary = ''c2''" "c_id bulky = ''u10''"
  "c_userId rent = ''alice''" "c_userId old_salary = ''alice''" "c_userId bulky = ''alice''"
  "c_isArchived rent = False" "c_isArchived old_salary = True" "c_isArchived bulky = False"
  "category_unreadable rent = False" "category_unreadable old_salary = False"
  "category_unreadable bulky = True"
  by (simp_all add: rent_def old_salary_def bulky_def category_unreadable_def unsafe_integer_def)

lemma tx_cols:
  "t_id tx1 = ''t1''" "t_id tx2 = ''t2''" "t_id tx3 = ''t3''" "t_id tx4 = ''t4''"
  "t_id jackpot = ''u9''"
  "t_userId tx1 = ''alice''" "t_userId tx2 = ''alice''" "t_userId tx3 = ''alice''"
  "t_userId tx4 = ''bob''" "t_userId jackpot = ''alice''"
  "t_accountId tx1 = Some ''a1''" "t_accountId tx2 = Some ''a2''" "t_accountId tx3 = None"
  "t_accountId tx4 = Some ''a3''" "t_accountId jackpot = None"
  "t_categoryId tx1 = Some ''c1''" "t_categoryId tx2 = None" "t_categoryId tx3 = Some ''c1''"
  "t_categoryId tx4 = None" "t_categoryId jackpot = None"
  "t_type tx1 = Expense" "t_type tx2 = Income" "t_type tx3 = Expense" "t_type tx4 = Expense"
  "t_type jackpot = Income"
  "transaction_unreadable tx1 = False" "transaction_unreadable tx2 = False"
  "transaction_unreadable tx3 = False" "transaction_unreadable tx4 = False"
  "transaction_unreadable jackpot = True"
  by (simp_all add: tx1_def tx2_def tx3_def tx4_def jackpot_def transaction_unreadable_def
      unsafe_integer_def)

text \<open>
  When the rows to return can all be read, the two lists return exactly the caller's
  rows, without the archived ones unless they are asked for; when one of them cannot be
  read, the list fails.
\<close>

lemma list_respects_archive_flag:
  assumes "requireUser ctx = Inr u"
  shows "listAccounts li ctx e s
           = (if list_ex account_unreadable (listed_accounts (user_id u) (li_includeArchived li) s)
              then (Inl RangeError, s)
              else (Inr (AccountItems (listed_accounts (user_id u) (li_includeArchived li) s)
                      (length (listed_accounts (user_id u) (li_includeArchived li) s))), s))"
    and "listCategories li ctx e s
           = (if list_ex category_unreadable (listed_categories (user_id u) (li_includeArchived li) s)
              then (Inl RangeError, s)
              else (Inr (CategoryItems (listed_categories (user_id u) (li_includeArchived li) s)
                      (length (listed_categories (user_id u) (li_includeArchived li) s))), s))"
  using assms
  by (simp_all add: listAccounts_def listCategories_def db_select_def Let_def
      listed_accounts_def listed_categories_def)

text \<open>
  Claim C5.  The lists are meant to return the caller's rows.  They do not once the
  caller has stored a whole number of magnitude \<open>2^53\<close> or more in \<open>startingBalance\<close>
  or \<open>sortOrder\<close>, which the schemas accept: \<open>createAccount\<close> with
  \<open>startingBalance: 9007199254740992\<close> succeeds and stores the account, and from then on
  \<open>listAccounts\<close> throws for that caller, with or without \<open>includeArchived\<close>, instead of
  returning her accounts.  The same happens to \<open>listCategories\<close> after
  \<open>createCategory\<close> with such a \<open>sortOrder\<close>.
\<close>

theorem list_fails_after_large_number:
  "succeeded (fst (server epoch_ms
      (CreateAccount (JObj [(''name'', JStr ''Vault''), (''startingBalance'', JNum 9007199254740992)]))
      (signed_in ''alice'') env1 db1))
   \<and> snd (server epoch_ms
      (CreateAccount (JObj [(''name'', JStr ''Vault''), (''startingBalance'', JNum 9007199254740992)]))
      (signed_in ''alice'') env1 db1)
     = db1\<lparr>Accounts := [cash, old_card, bobs_bank, vault]\<rparr>
   \<and> listed_accounts ''alice'' True (db1\<lparr>Accounts := [cash, old_card, bobs_bank, vault]\<rparr>)
     = [cash, old_card, vault]
   \<and> listed_accounts ''alice'' False (db1\<lparr>Accounts := [cash, old_card, bobs_bank, vault]\<rparr>)
     = [cash, vault]
   \<and> fst (server epoch_ms (ListAccounts (JObj [(''includeArchived'', JBool True)]))
            (signed_in ''alice'') env2 (db1\<lparr>Accounts := [cash, old_card, bobs_bank, vault]\<rparr>))
     = Inl RangeError
   \<and> fst (server epoch_ms (ListAccounts (JObj []))
            (signed_in ''alice'') env2 (db1\<lparr>Accounts := [cash, old_card, bobs_bank, vault]\<rparr>))
     = Inl RangeError
   \<and> succeeded (fst (server epoch_ms
      (CreateCategory (JObj [(''name'', JStr ''Bulky''), (''sortOrder'', JNum 9007199254740992)]))
      (signed_in ''alice'') env2 db1))
   \<and> snd (server epoch_ms
      (CreateCategory (JObj [(''name'', JStr ''Bulky''), (''sortOrder'', JNum 9007199254740992)]))
      (signed_in ''alice'') env2 db1)
     = db1\<lparr>Categories := [rent, old_salary, bulky]\<rparr>
   \<and> fst (server epoch_ms (ListCategories (JObj []))
            (signed_in ''alice'') env1 (db1\<lparr>Categories := [rent, old_salary, bulky]\<rparr>))
     = Inl RangeError"
proof -
  have ca: "createAccount_schema
      (JObj [(''name'', JStr ''Vault''), (''startingBalance'', JNum 9007199254740992)])
     = Some \<lparr>ca_name = ''Vault'', ca_type = Absent, ca_currency = Absent,
             ca_startingBalance = Given 9007199254740992\<rparr>"
    by (simp add: schema_defs)
  have cc: "createCategory_schema
      (JObj [(''name'', JStr ''Bulky''), (''sortOrder'', JNum 9007199254740992)])
     = Some \<lparr>cc_name = ''Bulky'', cc_type = Absent, cc_icon = Absent,
             cc_parentCategoryId = Absent, cc_sortOrder = Given 9007199254740992\<rparr>"
    by (simp add: schema_defs)
  have lt: "list_schema (JObj [(''includeArchived'', JBool True)]) = Some \<lparr>li_includeArchived = True\<rparr>"
    "list_schema (JObj []) = Some \<lparr>li_includeArchived = False\<rparr>"
    by (simp_all add: schema_defs)
  have a: "createAccount \<lparr>ca_name = ''Vault'', ca_type = Absent, ca_currency = Absent,
             ca_startingBalance = Given 9007199254740992\<rparr> (signed_in ''alice'') env1 db1
     = (Inr (AccountData \<lparr>ao_id = ''u9'', ao_userId = ''alice'', ao_name = JsVal ''Vault'',
               ao_type = JsUndefined, ao_currency = JsUndefined,
               ao_startingBalance = JsVal 9007199254740992, ao_isArchived = JsVal False,
               ao_createdAt = 1000, ao_updatedAt = 1000\<rparr>),
        db1\<lparr>Accounts := [cash, old_card, bobs_bank, vault]\<rparr>)"
    by (simp add: createAccount_def requireUser_signed_in Let_def db_insert_def env1_def
        db1_def acc_cols vault_def)
  have c: "createCategory \<lparr>cc_name = ''Bulky'', cc_type = Absent, cc_icon = Absent,
             cc_parentCategoryId = Absent, cc_sortOrder = Given 9007199254740992\<rparr>
             (signed_in ''alice'') env2 db1
     = (Inr (CategoryData \<lparr>co_id = ''u10'', co_userId = ''alice'', co_name = JsVal ''Bulky'',
               co_type = JsUndefined, co_icon = JsUndefined, co_parentCategoryId = JsUndefined,
               co_sortOrder = JsVal 9007199254740992, co_isArchived = JsVal False,
               co_createdAt = 2000, co_updatedAt = 2000\<rparr>),
        db1\<lparr>Categories := [rent, old_salary, bulky]\<rparr>)"
    by (simp add: createCategory_def requireUser_signed_in Let_def db_insert_def env2_def
        db1_def cat_cols bulky_def)
  have la: "listed_accounts ''alice'' True (db1\<lparr>Accounts := [cash, old_card, bobs_bank, vault]\<rparr>)
     = [cash, old_card, vault]"
    "listed_accounts ''alice'' False (db1\<lparr>Accounts := [cash, old_card, bobs_bank, vault]\<rparr>)
     = [cash, vault]"
    by (simp_all add: listed_accounts_def acc_cols)
  have lc: "listed_categories ''alice'' False (db1\<lparr>Categories := [rent, old_salary, bulky]\<rparr>)
     = [rent, bulky]"
    by (simp add: listed_categories_def cat_cols)
  show ?thesis
    by (simp add: defineAction_def ca cc lt a c la lc
        list_respects_archive_flag [OF requireUser_signed_in] acc_cols cat_cols)
qed

section \<open>Validation of the amount\<close>

lemma bind_const_None: "Option.bind x (\<lambda>_. None) = None"
  by (cases x) simp_all

lemma z_number_positive_Some: "z_number_positive v = Some r \<Longrightarrow> 0 < r"
  by (cases v) (simp_all add: z_number_positive_def split: if_splits)

lemma required_nonpos:
  "get_prop obj k = JNum r \<Longrightarrow> r \<le> 0 \<Longrightarrow> required z_number_positive obj k = None"
  by (simp add: required_def z_number_positive_def)

lemma optional_nonpos:
  "get_prop obj k = JNum r \<Longrightarrow> r \<le> 0 \<Longrightarrow> optional z_number_positive obj k = None"
  by (simp add: optional_def z_number_positive_def)

lemma optional_positive_Given:
  "optional z_number_positive obj k = Some (Given v) \<Longrightarrow> 0 < v"
  by (auto simp: optional_def split: if_splits dest: z_number_positive_Some)

lemma createTransaction_schema_nonpos:
  assumes "get_prop obj ''amount'' = JNum r" and "r \<le> 0"
  shows "createTransaction_schema toDate (JObj obj) = None"
  by (simp add: createTransaction_schema_def required_nonpos [OF assms] bind_const_None)

lemma updateTransaction_schema_nonpos:
  assumes "get_prop obj ''amount'' = JNum r" and "r \<le> 0"
  shows "updateTransaction_schema toDate (JObj obj) = None"
  by (simp add: updateTransaction_schema_def optional_nonpos [OF assms] bind_const_None)

lemma createTransaction_schema_amount:
  assumes "createTransaction_schema toDate raw = Some inp"
  shows "0 < ct_amount inp"
proof (cases raw)
  case (JObj obj)
  with assms obtain m where "required z_number_positive obj ''amount'' = Some m"
    and "ct_amount inp = m"
    by (auto simp: createTransaction_schema_def bind_eq_Some_conv)
  then show ?thesis by (simp add: required_def z_number_positive_Some)
qed (use assms in \<open>simp_all add: createTransaction_schema_def\<close>)

lemma updateTransaction_schema_amount:
  assumes "updateTransaction_schema toDate raw = Some inp" and "ut_amount inp = Given v"
  shows "0 < v"
proof (cases raw)
  case (JObj obj)
  with assms have "optional z_number_positive obj ''amount'' = Some (Given v)"
    by (auto simp: updateTransaction_schema_def bind_eq_Some_conv)
  then show ?thesis by (rule optional_positive_Given)
qed (use assms in \<open>simp_all add: updateTransaction_schema_def\<close>)

lemma first_or_null_filter: "first_or_null (filter P rows) = find P rows"
  by (induction rows) (simp_all add: first_or_null_def)

lemma find_mem: "find P rows = Some r \<Longrightarrow> r \<in> set rows \<and> P r"
  by (induction rows) (auto split: if_splits)

lemma db_select_Inr:
  "db_select unreadable P rows = Inr found
     \<longleftrightarrow> found = filter P rows \<and> \<not> list_ex unreadable (filter P rows)"
  by (auto simp: db_select_def Let_def)

lemma getAccountForUser_Some:
  assumes "getAccountForUser i uid s = Inr (Some a)"
  shows "stored_account i uid s = Some a" and "a \<in> set (Accounts s)"
    and "a_id a = i" and "a_userId a = uid" and "\<not> account_unreadable a"
proof -
  from assms show f: "stored_account i uid s = Some a"
    by (auto simp: getAccountForUser_def stored_account_def db_select_Inr first_or_null_filter
        split: sum.splits)
  then show "a \<in> set (Accounts s)" "a_id a = i" "a_userId a = uid"
    by (auto simp: stored_account_def dest: find_mem)
  with assms show "\<not> account_unreadable a"
    by (auto simp: getAccountForUser_def db_select_Inr list_ex_iff split: sum.splits)
qed

lemma getCategoryForUser_Some:
  assumes "getCategoryForUser i uid s = Inr (Some c)"
  shows "stored_category i uid s = Some c" and "c \<in> set (Categories s)"
    and "c_id c = i" and "c_userId c = uid" and "\<not> category_unreadable c"
proof -
  from assms show f: "stored_category i uid s = Some c"
    by (auto simp: getCategoryForUser_def stored_category_def db_select_Inr first_or_null_filter
        split: sum.splits)
  then show "c \<in> set (Categories s)" "c_id c = i" "c_userId c = uid"
    by (auto simp: stored_category_def dest: find_mem)
  with assms show "\<not> category_unreadable c"
    by (auto simp: getCategoryForUser_def db_select_Inr list_ex_iff split: sum.splits)
qed

lemma getTransactionForUser_Some:
  assumes "getTransactionForUser i uid s = Inr (Some t)"
  shows "stored_transaction i uid s = Some t" and "t \<in> set (Transactions s)"
    and "t_id t = i" and "t_userId t = uid" and "\<not> transaction_unreadable t"
proof -
  from assms show f: "stored_transaction i uid s = Some t"
    by (auto simp: getTransactionForUser_def stored_transaction_def db_select_Inr
        first_or_null_filter split: sum.splits)
  then show "t \<in> set (Transactions s)" "t_id t = i" "t_userId t = uid"
    by (auto simp: stored_transaction_def dest: find_mem)
  with assms show "\<not> transaction_unreadable t"
    by (auto simp: getTransactionForUser_def db_select_Inr list_ex_iff split: sum.splits)
qed

lemma createTransaction_amounts:
  assumes "amounts_positive s" and "0 < ct_amount inp"
  shows "amounts_positive (snd (createTransaction inp ctx e s))"
  using assms
  by (auto simp: createTransaction_def amounts_positive_def db_insert_def Let_def
      split: sum.splits if_splits)

lemma updateTransaction_amounts:
  assumes "amounts_positive s" and "\<And>v. ut_amount inp = Given v \<Longrightarrow> 0 < v"
  shows "amounts_positive (snd (updateTransaction inp ctx e s))"
proof (cases "requireUser ctx")
  case (Inl err)
  with assms(1) show ?thesis by (simp add: updateTransaction_def)
next
  case (Inr u)
  show ?thesis
  proof (cases "getTransactionForUser (ut_id inp) (user_id u) s")
    case (Inl err)
    with Inr assms(1) show ?thesis by (simp add: updateTransaction_def)
  next
    case found: (Inr found)
    show ?thesis
    proof (cases found)
      case None
      with Inr found assms(1) show ?thesis by (simp add: updateTransaction_def)
    next
      case (Some t)
      with found have "t \<in> set (Transactions s)"
        by (simp add: getTransactionForUser_Some)
      with assms(1) have "0 < t_amount t"
        by (simp add: amounts_positive_def list_all_iff)
      with assms(2) have "0 < coalesce (ut_amount inp) (t_amount t)"
        by (cases "ut_amount inp") simp_all
      with Inr found Some assms(1) show ?thesis
        by (auto simp: updateTransaction_def amounts_positive_def db_update_def Let_def
            list_all_iff)
    qed
  qed
qed

lemma deleteTransaction_amounts:
  "amounts_positive s \<Longrightarrow> amounts_positive (snd (deleteTransaction inp ctx e s))"
  by (auto simp: deleteTransaction_def amounts_positive_def db_delete_def list_all_iff
      split: sum.splits option.splits)

lemma defineAction_keeps:
  assumes "\<And>inp. sch raw = Some inp \<Longrightarrow> Q (snd (h inp ctx e s))" and "Q s"
  shows "Q (snd (defineAction sch h raw ctx e s))"
  using assms by (cases "sch raw") (simp_all add: defineAction_def)

lemma Transactions_untouched:
  "Transactions (snd (createAccount ai ctx e s)) = Transactions s"
  "Transactions (snd (updateAccount ui ctx e s)) = Transactions s"
  "Transactions (snd (archiveAccount ii ctx e s)) = Transactions s"
  "Transactions (snd (listAccounts li ctx e s)) = Transactions s"
  "Transactions (snd (createCategory ci ctx e s)) = Transactions s"
  "Transactions (snd (updateCategory uci ctx e s)) = Transactions s"
  "Transactions (snd (archiveCategory ii ctx e s)) = Transactions s"
  "Transactions (snd (listCategories li ctx e s)) = Transactions s"
  "Transactions (snd (listTransactions lti ctx e s)) = Transactions s"
  by (simp_all add: createAccount_def updateAccount_def archiveAccount_def listAccounts_def
      createCategory_def updateCategory_def archiveCategory_def listCategories_def
      listTransactions_def Let_def split: sum.splits option.splits)

lemma defineAction_Transactions:
  assumes "\<And>inp. Transactions (snd (h inp ctx e s)) = Transactions s"
  shows "Transactions (snd (defineAction sch h raw ctx e s)) = Transactions s"
  by (cases "sch raw") (simp_all add: defineAction_def assms)

lemma server_amounts:
  assumes "amounts_positive s"
  shows "amounts_positive (snd (server toDate req ctx e s))"
proof (cases req)
  case (CreateTransaction raw)
  show ?thesis
    unfolding CreateTransaction server.simps
    by (rule defineAction_keeps)
      (simp_all add: assms createTransaction_amounts createTransaction_schema_amount)
next
  case (UpdateTransaction raw)
  show ?thesis
    unfolding UpdateTransaction server.simps
    by (rule defineAction_keeps)
      (simp_all add: assms updateTransaction_amounts updateTransaction_schema_amount)
next
  case (DeleteTransaction raw)
  show ?thesis
    unfolding DeleteTransaction server.simps
    by (rule defineAction_keeps) (simp_all add: assms deleteTransaction_amounts)
next
  case (CreateAccount raw)
  with assms show ?thesis
    by (simp add: amounts_positive_def defineAction_Transactions [OF Transactions_untouched(1)])
next
  case (UpdateAccount raw)
  with assms show ?thesis
    by (simp add: amounts_positive_def defineAction_Transactions [OF Transactions_untouched(2)])
next
  case (ArchiveAccount raw)
  with assms show ?thesis
    by (simp add: amounts_positive_def defineAction_Transactions [OF Transactions_untouched(3)])
next
  case (ListAccounts raw)
  with assms show ?thesis
    by (simp add: amounts_positive_def defineAction_Transactions [OF Transactions_untouched(4)])
next
  case (CreateCategory raw)
  with assms show ?thesis
    by (simp add: amounts_positive_def defineAction_Transactions [OF Transactions_untouched(5)])
next
  case (UpdateCategory raw)
  with assms show ?thesis
    by (simp add: amounts_positive_def defineAction_Transactions [OF Transactions_untouched(6)])
next
  case (ArchiveCategory raw)
  with assms show ?thesis
    by (simp add: amounts_positive_def defineAction_Transactions [OF Transactions_untouched(7)])
next
  case (ListCategories raw)
  with assms show ?thesis
    by (simp add: amounts_positive_def defineAction_Transactions [OF Transactions_untouched(8)])
next
  case (ListTransactions raw)
  with assms show ?thesis
    by (simp add: amounts_positive_def defineAction_Transactions [OF Transactions_untouched(9)])
qed

text \<open>
  Claim C7.  A raw input whose \<open>amount\<close> is a number that is zero or negative is
  refused by the schema of \<open>createTransaction\<close> and of \<open>updateTransaction\<close>: the
  request ends in the input error before the handler runs, whoever the caller is, and
  the store is unchanged.  An amount that the create schema accepts, or that the update
  schema accepts as given, is strictly positive; hence no request ever stores a
  transaction whose amount is not strictly positive.
\<close>

theorem nonpositive_amount_rejected:
  "(get_prop obj ''amount'' = JNum r \<and> r \<le> 0 \<longrightarrow>
      server toDate (CreateTransaction (JObj obj)) ctx e s = (Inl ActionInputError, s)
      \<and> server toDate (UpdateTransaction (JObj obj)) ctx e s = (Inl ActionInputError, s))
   \<and> (createTransaction_schema toDate raw = Some ci \<longrightarrow> 0 < ct_amount ci)
   \<and> (updateTransaction_schema toDate raw = Some ui \<and> ut_amount ui = Given v \<longrightarrow> 0 < v)
   \<and> (amounts_positive s \<longrightarrow> amounts_positive (snd (server toDate req ctx e s)))"
proof (intro conjI impI)
  assume "get_prop obj ''amount'' = JNum r \<and> r \<le> 0"
  then show "server toDate (CreateTransaction (JObj obj)) ctx e s = (Inl ActionInputError, s)"
    by (simp add: defineAction_def createTransaction_schema_nonpos)
next
  assume "get_prop obj ''amount'' = JNum r \<and> r \<le> 0"
  then show "server toDate (UpdateTransaction (JObj obj)) ctx e s = (Inl ActionInputError, s)"
    by (simp add: defineAction_def updateTransaction_schema_nonpos)
next
  assume "createTransaction_schema toDate raw = Some ci"
  then show "0 < ct_amount ci" by (rule createTransaction_schema_amount)
next
  assume "updateTransaction_schema toDate raw = Some ui \<and> ut_amount ui = Given v"
  then show "0 < v" using updateTransaction_schema_amount by blast
next
  assume "amounts_positive s"
  then show "amounts_positive (snd (server toDate req ctx e s))" by (rule server_amounts)
qed

theorem nonpositive_amount_rejected_witness:
  "server epoch_ms (CreateTransaction (JObj [(''type'', JStr ''expense''), (''amount'', JNum 0)]))
       anonymous env1 db1 = (Inl ActionInputError, db1)
   \<and> server epoch_ms (UpdateTransaction (JObj [(''id'', JStr ''t1''), (''amount'', JNum (- 5))]))
       (signed_in ''alice'') env1 db1 = (Inl ActionInputError, db1)
   \<and> createTransaction_schema epoch_ms (JObj [(''type'', JStr ''expense''), (''amount'', JNum 5)])
       = Some \<lparr>ct_accountId = Absent, ct_categoryId = Absent, ct_type = Expense, ct_amount = 5,
               ct_currency = Absent, ct_transactionDate = Absent, ct_description = Absent,
               ct_transferAccountId = Absent\<rparr>
   \<and> updateTransaction_schema epoch_ms (JObj [(''id'', JStr ''t1''), (''amount'', JNum 2)])
       = Some \<lparr>ut_id = ''t1'', ut_accountId = Absent, ut_categoryId = Absent, ut_type = Absent,
               ut_amount = Given 2, ut_currency = Absent, ut_transactionDate = Absent,
               ut_description = Absent, ut_transferAccountId = Absent\<rparr>
   \<and> amounts_positive db1
   \<and> amounts_positive
        (snd (server epoch_ms
               (UpdateTransaction (JObj [(''id'', JStr ''t1''), (''amount'', JNum 2)]))
               (signed_in ''alice'') env1 db1))"
proof -
  have u: "updateTransaction_schema epoch_ms (JObj [(''id'', JStr ''t1''), (''amount'', JNum 2)])
       = Some \<lparr>ut_id = ''t1'', ut_accountId = Absent, ut_categoryId = Absent, ut_type = Absent,
               ut_amount = Given 2, ut_currency = Absent, ut_transactionDate = Absent,
               ut_description = Absent, ut_transferAccountId = Absent\<rparr>"
    by (simp add: schema_defs)
  have a: "get_prop [(''type'', JStr ''expense''), (''amount'', JNum 0)] ''amount'' = JNum 0
           \<and> (0::real) \<le> 0"
    by (simp add: get_prop_def)
  have b: "get_prop [(''id'', JStr ''t1''), (''amount'', JNum (- 5))] ''amount'' = JNum (- 5)
           \<and> (- 5::real) \<le> 0"
    by (simp add: get_prop_def)
  have c: "createTransaction_schema epoch_ms (JObj [(''type'', JStr ''expense''), (''amount'', JNum 5)])
       = Some \<lparr>ct_accountId = Absent, ct_categoryId = Absent, ct_type = Expense, ct_amount = 5,
               ct_currency = Absent, ct_transactionDate = Absent, ct_description = Absent,
               ct_transferAccountId = Absent\<rparr>"
    by (simp add: schema_defs)
  have d: "amounts_positive db1"
    by (simp add: amounts_positive_def ex_defs)
  from nonpositive_amount_rejected
         [of "[(''type'', JStr ''expense''), (''amount'', JNum 0)]" 0 epoch_ms anonymous env1 db1]
       nonpositive_amount_rejected
         [of "[(''id'', JStr ''t1''), (''amount'', JNum (- 5))]" "- 5" epoch_ms "signed_in ''alice''"
            env1 db1 _ _ _ _ "UpdateTransaction (JObj [(''id'', JStr ''t1''), (''amount'', JNum 2)])"]
       a b c d u
  show ?thesis by simp
qed

section \<open>Scoped statements\<close>




section \<open>Archiving\<close>








lemma db1_lookups:
  "getAccountForUser ''a1'' ''alice'' db1 = Inr (Some cash)"
  "getAccountForUser ''a2'' ''alice'' db1 = Inr (Some old_card)"
  "getCategoryForUser ''c1'' ''alice'' db1 = Inr (Some rent)"
  "getCategoryForUser ''c2'' ''alice'' db1 = Inr (Some old_salary)"
  "getTransactionForUser ''t1'' ''alice'' db1 = Inr (Some tx1)"
  by (simp_all add: getAccountForUser_def getCategoryForUser_def getTransactionForUser_def
      db_select_def first_or_null_def db1_def acc_cols cat_cols tx_cols)


section \<open>Updating\<close>



lemma untouched_after_update:
  assumes "\<And>r. Q r \<Longrightarrow> \<not> P r" and "\<And>r. P r \<Longrightarrow> \<not> Q (f r)"
  shows "filter Q (db_update f P rows) = filter Q rows"
proof (induction rows)
  case Nil
  show ?case by (simp add: db_update_def)
next
  case (Cons r rows)
  show ?case
  proof (cases "P r")
    case True
    with assms [of r] Cons.IH show ?thesis
      by (auto simp: db_update_def)
  next
    case False
    with Cons.IH show ?thesis
      by (simp add: db_update_def)
  qed
qed

lemma find_after_scoped_update:
  assumes "\<And>r. P r \<Longrightarrow> P (f r)"
  shows "find P (db_update f P rows) = map_option f (find P rows)"
  using assms by (induction rows) (simp_all add: db_update_def)

lemma foreign_keys_ok_cong:
  "t_accountId r = t_accountId r' \<Longrightarrow> t_categoryId r = t_categoryId r'
     \<Longrightarrow> foreign_keys_ok s r = foreign_keys_ok s r'"
  by (simp add: foreign_keys_ok_def)

lemma updateAccount_owned:
  assumes "requireUser ctx = Inr u" and "getAccountForUser (ua_id inp) (user_id u) s = Inr (Some a)"
  shows "succeeded (fst (updateAccount inp ctx e s))
       \<and> snd (updateAccount inp ctx e s)
           = s\<lparr>Accounts :=
                 db_update
                   (\<lambda>r. r\<lparr>a_name := coalesce (ua_name inp) (a_name a),
                           a_type := coalesce_null (ua_type inp) (a_type a),
                           a_currency := coalesce_null (ua_currency inp) (a_currency a),
                           a_startingBalance := coalesce_null (ua_startingBalance inp) (a_startingBalance a),
                           a_isArchived := coalesce (ua_isArchived inp) (a_isArchived a),
                           a_updatedAt := env_now e\<rparr>)
                   (\<lambda>r. a_id r = ua_id inp \<and> a_userId r = user_id u) (Accounts s)\<rparr>"
  using assms by (simp add: updateAccount_def Let_def)

lemma updateAccount_stored:
  assumes "requireUser ctx = Inr u" and "getAccountForUser (ua_id inp) (user_id u) s = Inr (Some a)"
  shows "stored_account (ua_id inp) (user_id u) (snd (updateAccount inp ctx e s))
           = Some (a\<lparr>a_name := coalesce (ua_name inp) (a_name a),
                      a_type := coalesce_null (ua_type inp) (a_type a),
                      a_currency := coalesce_null (ua_currency inp) (a_currency a),
                      a_startingBalance := coalesce_null (ua_startingBalance inp) (a_startingBalance a),
                      a_isArchived := coalesce (ua_isArchived inp) (a_isArchived a),
                      a_updatedAt := env_now e\<rparr>)"
  using getAccountForUser_Some(1) [OF assms(2)]
  by (simp add: updateAccount_owned [OF assms, THEN conjunct2] stored_account_def find_after_scoped_update)


lemma updateAccount_others:
  assumes "requireUser ctx = Inr u" and "getAccountForUser (ua_id inp) (user_id u) s = Inr (Some a)"
  shows "filter (\<lambda>r. a_id r \<noteq> ua_id inp) (Accounts (snd (updateAccount inp ctx e s)))
          = filter (\<lambda>r. a_id r \<noteq> ua_id inp) (Accounts s)"
  apply (simp add: updateAccount_owned [OF assms, THEN conjunct2])
  apply (rule untouched_after_update; simp)
  done


lemma updateCategory_owned:
  assumes "requireUser ctx = Inr u" and "getCategoryForUser (uc_id inp) (user_id u) s = Inr (Some c)"
  shows "succeeded (fst (updateCategory inp ctx e s))
       \<and> snd (updateCategory inp ctx e s)
           = s\<lparr>Categories :=
                 db_update
                   (\<lambda>r. r\<lparr>c_name := coalesce (uc_name inp) (c_name c),
                           c_type := coalesce_null (uc_type inp) (c_type c),
                           c_icon := coalesce_null (uc_icon inp) (c_icon c),
                           c_parentCategoryId := coalesce_null (uc_parentCategoryId inp) (c_parentCategoryId c),
                           c_sortOrder := coalesce_null (uc_sortOrder inp) (c_sortOrder c),
                           c_isArchived := coalesce (uc_isArchived inp) (c_isArchived c),
                           c_updatedAt := env_now e\<rparr>)
                   (\<lambda>r. c_id r = uc_id inp \<and> c_userId r = user_id u) (Categories s)\<rparr>"
  using assms by (simp add: updateCategory_def Let_def)

lemma updateCategory_stored:
  assumes "requireUser ctx = Inr u" and "getCategoryForUser (uc_id inp) (user_id u) s = Inr (Some c)"
  shows "stored_category (uc_id inp) (user_id u) (snd (updateCategory inp ctx e s))
           = Some (c\<lparr>c_name := coalesce (uc_name inp) (c_name c),
                      c_type := coalesce_null (uc_type inp) (c_type c),
                      c_icon := coalesce_null (uc_icon inp) (c_icon c),
                      c_parentCategoryId := coalesce_null (uc_parentCategoryId inp) (c_parentCategoryId c),
                      c_sortOrder := coalesce_null (uc_sortOrder inp) (c_sortOrder c),
                      c_isArchived := coalesce (uc_isArchived inp) (c_isArchived c),
                      c_updatedAt := env_now e\<rparr>)"
  using getCategoryForUser_Some(1) [OF assms(2)]
  by (simp add: updateCategory_owned [OF assms, THEN conjunct2] stored_category_def find_after_scoped_update)


lemma updateCategory_others:
  assumes "requireUser ctx = Inr u" and "getCategoryForUser (uc_id inp) (user_id u) s = Inr (Some c)"
  shows "filter (\<lambda>r. c_id r \<noteq> uc_id inp) (Categories (snd (updateCategory inp ctx e s)))
          = filter (\<lambda>r. c_id r \<noteq> uc_id inp) (Categories s)"
  apply (simp add: updateCategory_owned [OF assms, THEN conjunct2])
  apply (rule untouched_after_update; simp)
  done


lemma updateTransaction_owned:
  assumes "requireUser ctx = Inr u" and "getTransactionForUser (ut_id inp) (user_id u) s = Inr (Some t)"
    and "foreign_keys_ok s (t\<lparr>t_accountId := coalesce_null (ut_accountId inp) (t_accountId t),
                                 t_categoryId := coalesce_null (ut_categoryId inp) (t_categoryId t)\<rparr>)"
  shows "succeeded (fst (updateTransaction inp ctx e s))
       \<and> snd (updateTransaction inp ctx e s)
           = s\<lparr>Transactions :=
                 db_update
                   (\<lambda>r. r\<lparr>t_accountId := coalesce_null (ut_accountId inp) (t_accountId t),
                           t_categoryId := coalesce_null (ut_categoryId inp) (t_categoryId t),
                           t_type := coalesce (ut_type inp) (t_type t),
                           t_amount := coalesce (ut_amount inp) (t_amount t),
                           t_currency := coalesce_null (ut_currency inp) (t_currency t),
                           t_transactionDate := coalesce (ut_transactionDate inp) (t_transactionDate t),
                           t_description := coalesce_null (ut_description inp) (t_description t),
                           t_transferAccountId := coalesce_null (ut_transferAccountId inp) (t_transferAccountId t),
                           t_updatedAt := env_now e\<rparr>)
                   (\<lambda>r. t_id r = ut_id inp \<and> t_userId r = user_id u) (Transactions s)\<rparr>"
proof -
  have "\<And>r. foreign_keys_ok s (r\<lparr>t_accountId := coalesce_null (ut_accountId inp) (t_accountId t),
                                   t_categoryId := coalesce_null (ut_categoryId inp) (t_categoryId t),
                                   t_type := coalesce (ut_type inp) (t_type t),
                                   t_amount := coalesce (ut_amount inp) (t_amount t),
                                   t_currency := coalesce_null (ut_currency inp) (t_currency t),
                                   t_transactionDate := coalesce (ut_transactionDate inp) (t_transactionDate t),
                                   t_description := coalesce_null (ut_description inp) (t_description t),
                                   t_transferAccountId := coalesce_null (ut_transferAccountId inp) (t_transferAccountId t),
                                   t_updatedAt := env_now e\<rparr>)
          = foreign_keys_ok s (t\<lparr>t_accountId := coalesce_null (ut_accountId inp) (t_accountId t),
                                 t_categoryId := coalesce_null (ut_categoryId inp) (t_categoryId t)\<rparr>)"
    by (rule foreign_keys_ok_cong) simp_all
  with assms show ?thesis
    by (simp add: updateTransaction_def Let_def list_ex_iff)
qed

lemma updateTransaction_stored:
  assumes "requireUser ctx = Inr u" and "getTransactionForUser (ut_id inp) (user_id u) s = Inr (Some t)"
    and "foreign_keys_ok s (t\<lparr>t_accountId := coalesce_null (ut_accountId inp) (t_accountId t),
                                 t_categoryId := coalesce_null (ut_categoryId inp) (t_categoryId t)\<rparr>)"
  shows "stored_transaction (ut_id inp) (user_id u) (snd (updateTransaction inp ctx e s))
           = Some (t\<lparr>t_accountId := coalesce_null (ut_accountId inp) (t_accountId t),
                      t_categoryId := coalesce_null (ut_categoryId inp) (t_categoryId t),
                      t_type := coalesce (ut_type inp) (t_type t),
                      t_amount := coalesce (ut_amount inp) (t_amount t),
                      t_currency := coalesce_null (ut_currency inp) (t_currency t),
                      t_transactionDate := coalesce (ut_transactionDate inp) (t_transactionDate t),
                      t_description := coalesce_null (ut_description inp) (t_description t),
                      t_transferAccountId := coalesce_null (ut_transferAccountId inp) (t_transferAccountId t),
                      t_updatedAt := env_now e\<rparr>)"
  using getTransactionForUser_Some(1) [OF assms(2)]
  by (simp add: updateTransaction_owned [OF assms, THEN conjunct2] stored_transaction_def find_after_scoped_update)


lemma updateTransaction_others:
  assumes "requireUser ctx = Inr u" and "getTransactionForUser (ut_id inp) (user_id u) s = Inr (Some t)"
    and "foreign_keys_ok s (t\<lparr>t_accountId := coalesce_null (ut_accountId inp) (t_accountId t),
                                 t_categoryId := coalesce_null (ut_categoryId inp) (t_categoryId t)\<rparr>)"
  shows "filter (\<lambda>r. t_id r \<noteq> ut_id inp) (Transactions (snd (updateTransaction inp ctx e s)))
          = filter (\<lambda>r. t_id r \<noteq> ut_id inp) (Transactions s)"
  apply (simp add: updateTransaction_owned [OF assms, THEN conjunct2])
  apply (rule untouched_after_update; simp)
  done






section \<open>The transaction list\<close>









section \<open>The object an update returns\<close>

text \<open>
  When no key of the input holds \<open>undefined\<close>, the object an update returns is the
  stored row.
\<close>

lemma spread_JsVal: "no_undefined f \<Longrightarrow> spread (JsVal prior) f = JsVal (coalesce f prior)"
  by (cases f) simp_all

lemma spread_of_column:
  "no_undefined f \<Longrightarrow> spread (of_column prior) f = of_column (coalesce_null f prior)"
  by (cases f) simp_all

lemma updateAccount_returns_stored:
  assumes "requireUser ctx = Inr u" and "getAccountForUser (ua_id inp) (user_id u) s = Inr (Some a)"
    and "no_undefined (ua_name inp)" and "no_undefined (ua_type inp)"
    and "no_undefined (ua_currency inp)" and "no_undefined (ua_startingBalance inp)"
    and "no_undefined (ua_isArchived inp)"
  shows "map_option (\<lambda>r. Inr (AccountData (account_row r)))
           (stored_account (ua_id inp) (user_id u) (snd (updateAccount inp ctx e s)))
         = Some (fst (updateAccount inp ctx e s))"
proof -
  have "a_id a = ua_id inp"
    by (rule getAccountForUser_Some(3) [OF assms(2)])
  with assms show ?thesis
    unfolding updateAccount_stored [OF assms(1,2)]
    by (simp add: updateAccount_def Let_def account_row_def spread_JsVal spread_of_column)
qed

lemma updateCategory_returns_stored:
  assumes "requireUser ctx = Inr u" and "getCategoryForUser (uc_id inp) (user_id u) s = Inr (Some c)"
    and "no_undefined (uc_name inp)" and "no_undefined (uc_type inp)"
    and "no_undefined (uc_icon inp)" and "no_undefined (uc_parentCategoryId inp)"
    and "no_undefined (uc_sortOrder inp)" and "no_undefined (uc_isArchived inp)"
  shows "map_option (\<lambda>r. Inr (CategoryData (category_row r)))
           (stored_category (uc_id inp) (user_id u) (snd (updateCategory inp ctx e s)))
         = Some (fst (updateCategory inp ctx e s))"
proof -
  have "c_id c = uc_id inp"
    by (rule getCategoryForUser_Some(3) [OF assms(2)])
  with assms show ?thesis
    unfolding updateCategory_stored [OF assms(1,2)]
    by (simp add: updateCategory_def Let_def category_row_def spread_JsVal spread_of_column)
qed

lemma updateTransaction_returns_stored:
  assumes "requireUser ctx = Inr u"
    and "getTransactionForUser (ut_id inp) (user_id u) s = Inr (Some t)"
    and "foreign_keys_ok s (t\<lparr>t_accountId := coalesce_null (ut_accountId inp) (t_accountId t),
                                 t_categoryId := coalesce_null (ut_categoryId inp) (t_categoryId t)\<rparr>)"
    and "no_undefined (ut_accountId inp)" and "no_undefined (ut_categoryId inp)"
    and "no_undefined (ut_type inp)" and "no_undefined (ut_amount inp)"
    and "no_undefined (ut_currency inp)" and "no_undefined (ut_transactionDate inp)"
    and "no_undefined (ut_description inp)" and "no_undefined (ut_transferAccountId inp)"
  shows "map_option (\<lambda>r. Inr (TransactionData (transaction_row r)))
           (stored_transaction (ut_id inp) (user_id u) (snd (updateTransaction inp ctx e s)))
         = Some (fst (updateTransaction inp ctx e s))"
proof -
  have i: "t_id t = ut_id inp"
    by (rule getTransactionForUser_Some(3) [OF assms(2)])
  have "\<And>r. foreign_keys_ok s (r\<lparr>t_accountId := coalesce_null (ut_accountId inp) (t_accountId t),
                                   t_categoryId := coalesce_null (ut_categoryId inp) (t_categoryId t),
                                   t_type := coalesce (ut_type inp) (t_type t),
                                   t_amount := coalesce (ut_amount inp) (t_amount t),
                                   t_currency := coalesce_null (ut_currency inp) (t_currency t),
                                   t_transactionDate := coalesce (ut_transactionDate inp) (t_transactionDate t),
                                   t_description := coalesce_null (ut_description inp) (t_description t),
                                   t_transferAccountId := coalesce_null (ut_transferAccountId inp) (t_transferAccountId t),
                                   t_updatedAt := env_now e\<rparr>)
          = foreign_keys_ok s (t\<lparr>t_accountId := coalesce_null (ut_accountId inp) (t_accountId t),
                                 t_categoryId := coalesce_null (ut_categoryId inp) (t_categoryId t)\<rparr>)"
    by (rule foreign_keys_ok_cong) simp_all
  with assms i show ?thesis
    unfolding updateTransaction_stored [OF assms(1,2,3)]
    by (simp add: updateTransaction_def Let_def list_ex_iff transaction_row_def spread_JsVal
        spread_of_column)
qed

lemma undefined_name_input:
  "updateAccount_schema (JObj [(''id'', JStr ''a1''), (''name'', JUndefined)])
     = Some \<lparr>ua_id = ''a1'', ua_name = Undef, ua_type = Absent, ua_currency = Absent,
             ua_startingBalance = Absent, ua_isArchived = Absent\<rparr>"
  by (simp add: schema_defs)

text \<open>
  Claim C9.  The returned object is meant to be the stored row.  It is not when a key of
  the input holds \<open>undefined\<close>: the update statement keeps the prior value of that
  column (\<open>input.name ?? account.name\<close>), while the returned object, built by spread,
  has \<open>undefined\<close> there.  Here \<open>updateAccount\<close> is called by the owner with
  \<open>{ id: "a1", name: undefined }\<close>: the stored name stays \<open>Cash\<close> and the
  returned name is \<open>undefined\<close>.
\<close>

theorem update_returns_undefined_for_kept_column:
  "fst (server epoch_ms (UpdateAccount (JObj [(''id'', JStr ''a1''), (''name'', JUndefined)]))
         (signed_in ''alice'') env1 db1)
     = Inr (AccountData ((account_row cash)\<lparr>ao_name := JsUndefined, ao_updatedAt := 1000\<rparr>))
   \<and> map_sum id (map_option account_row)
        (getAccountForUser ''a1'' ''alice''
           (snd (server epoch_ms (UpdateAccount (JObj [(''id'', JStr ''a1''), (''name'', JUndefined)]))
                  (signed_in ''alice'') env1 db1)))
     = Inr (Some ((account_row cash)\<lparr>ao_updatedAt := 1000\<rparr>))
   \<and> map_option account_row
        (stored_account ''a1'' ''alice''
           (snd (server epoch_ms (UpdateAccount (JObj [(''id'', JStr ''a1''), (''name'', JUndefined)]))
                  (signed_in ''alice'') env1 db1)))
     = Some ((account_row cash)\<lparr>ao_updatedAt := 1000\<rparr>)
   \<and> ao_name ((account_row cash)\<lparr>ao_updatedAt := 1000\<rparr>) = JsVal ''Cash''"
proof -
  let ?inp = "\<lparr>ua_id = ''a1'', ua_name = Undef, ua_type = Absent, ua_currency = Absent,
             ua_startingBalance = Absent, ua_isArchived = Absent\<rparr>"
  have l: "getAccountForUser (ua_id ?inp) (user_id \<lparr>user_id = ''alice''\<rparr>) db1 = Inr (Some cash)"
    by (simp add: db1_lookups)
  have r: "fst (updateAccount ?inp (signed_in ''alice'') env1 db1)
     = Inr (AccountData ((account_row cash)\<lparr>ao_name := JsUndefined, ao_updatedAt := 1000\<rparr>))"
    by (simp add: updateAccount_def requireUser_signed_in db1_lookups Let_def env1_def
        account_row_def acc_cols)
  have c: "cash\<lparr>a_name := ''Cash'', a_type := a_type cash, a_currency := a_currency cash,
             a_startingBalance := a_startingBalance cash, a_isArchived := a_isArchived cash,
             a_updatedAt := 1000\<rparr> = cash\<lparr>a_updatedAt := 1000\<rparr>"
    by (simp add: cash_def)
  have w: "snd (updateAccount ?inp (signed_in ''alice'') env1 db1)
     = db1\<lparr>Accounts := [cash\<lparr>a_updatedAt := 1000\<rparr>, old_card, bobs_bank]\<rparr>"
    using updateAccount_owned [OF requireUser_signed_in [of "''alice''"] l, of env1,
        THEN conjunct2]
    by (simp add: db_update_def db1_def acc_cols env1_def c)
  have g: "getAccountForUser ''a1'' ''alice''
             (db1\<lparr>Accounts := [cash\<lparr>a_updatedAt := 1000\<rparr>, old_card, bobs_bank]\<rparr>)
     = Inr (Some (cash\<lparr>a_updatedAt := 1000\<rparr>))"
    by (simp add: getAccountForUser_def db_select_def first_or_null_def account_unreadable_def
        unsafe_integer_def cash_def acc_cols)
  have p: "stored_account ''a1'' ''alice''
             (db1\<lparr>Accounts := [cash\<lparr>a_updatedAt := 1000\<rparr>, old_card, bobs_bank]\<rparr>)
     = Some (cash\<lparr>a_updatedAt := 1000\<rparr>)"
    by (simp add: stored_account_def acc_cols)
  have n: "ao_name ((account_row cash)\<lparr>ao_updatedAt := 1000\<rparr>) = JsVal ''Cash''"
    by (simp add: account_row_def cash_def)
  from r w g p n show ?thesis
    by (simp add: defineAction_def undefined_name_input account_row_def)
qed

section \<open>The archive flag over time\<close>




























lemma db1_tables:
  "Accounts db1 = [cash, old_card, bobs_bank]" "Categories db1 = [rent, old_salary]"
  "Transactions db1 = [tx1, tx2, tx3, tx4]"
  by (simp_all add: db1_def)

lemma db1_primary_keys: "primary_keys db1"
  by (simp add: primary_keys_def db1_def acc_cols cat_cols tx_cols)










section \<open>The primary keys stay distinct\<close>

text \<open>
  The empty store has distinct primary keys, and every request keeps them distinct: an
  insert of a stored id is refused, and updates and deletes leave the ids alone.
\<close>

lemma keys_after_update:
  assumes "\<And>r. key (f r) = key r"
  shows "map key (db_update f P rows) = map key rows"
  using assms by (simp add: db_update_def)

lemma keys_after_insert:
  "db_insert key row rows = Some rows' \<Longrightarrow> distinct (map key rows)
     \<Longrightarrow> distinct (map key rows')"
  by (auto simp: db_insert_def split: if_splits)

lemma keys_after_delete:
  "distinct (map key rows) \<Longrightarrow> distinct (map key (db_delete P rows))"
  by (simp add: db_delete_def distinct_map_filter)

lemma handlers_keep_primary_keys:
  assumes "primary_keys s"
  shows "primary_keys (snd (createAccount ai ctx e s))"
    and "primary_keys (snd (updateAccount ui ctx e s))"
    and "primary_keys (snd (archiveAccount ii ctx e s))"
    and "primary_keys (snd (listAccounts li ctx e s))"
    and "primary_keys (snd (createCategory ci ctx e s))"
    and "primary_keys (snd (updateCategory uci ctx e s))"
    and "primary_keys (snd (archiveCategory ii ctx e s))"
    and "primary_keys (snd (listCategories li ctx e s))"
    and "primary_keys (snd (createTransaction cti ctx e s))"
    and "primary_keys (snd (updateTransaction uti ctx e s))"
    and "primary_keys (snd (deleteTransaction ii ctx e s))"
    and "primary_keys (snd (listTransactions lti ctx e s))"
  using assms
  by (auto simp: primary_keys_def createAccount_def updateAccount_def archiveAccount_def
      listAccounts_def createCategory_def updateCategory_def archiveCategory_def
      listCategories_def createTransaction_def updateTransaction_def deleteTransaction_def
      listTransactions_def Let_def keys_after_update keys_after_delete
      split: sum.splits option.splits dest: keys_after_insert)

lemma server_keeps_primary_keys:
  assumes "primary_keys s"
  shows "primary_keys (snd (server toDate req ctx e s))"
  by (cases req)
    (simp_all add: defineAction_def handlers_keep_primary_keys [OF assms] assms
      split: option.splits)

lemma run_keeps_primary_keys:
  "primary_keys s \<Longrightarrow> primary_keys (run toDate reqs s)"
proof (induction reqs arbitrary: s)
  case Nil
  then show ?case by simp
next
  case (Cons x reqs)
  obtain req ctx e where "x = (req, ctx, e)" by (cases x)
  with Cons show ?case by (simp add: server_keeps_primary_keys)
qed

lemma empty_store_primary_keys:
  "primary_keys \<lparr>Accounts = [], Categories = [], Transactions = []\<rparr>"
  by (simp add: primary_keys_def)

section \<open>Rows of another owner\<close>

lemma no_row_for_other_owner:
  assumes "distinct (map key rows)" and "a \<in> set rows" and "owner a \<noteq> uid"
  shows "filter (\<lambda>r. key r = key a \<and> owner r = uid) rows = []"
proof -
  have "inj_on key (set rows)" using assms(1) by (simp add: distinct_map)
  with assms(2) have "\<And>r. r \<in> set rows \<Longrightarrow> key r = key a \<Longrightarrow> r = a"
    by (auto dest: inj_onD)
  with assms(3) show ?thesis
    by (auto simp: filter_empty_conv)
qed

lemma untouched_after_delete:
  assumes "\<And>r. Q r \<Longrightarrow> \<not> P r"
  shows "filter Q (db_delete P rows) = filter Q rows"
  using assms by (induction rows) (auto simp: db_delete_def)

lemma untouched_after_insert:
  assumes "db_insert key row rows = Some rows'" and "\<not> Q row"
  shows "filter Q rows' = filter Q rows"
  using assms by (auto simp: db_insert_def split: if_splits)

lemma same_for_others_refl: "same_for_others uid s s"
  by (simp add: same_for_others_def)

lemma same_for_others_Accounts:
  assumes "\<And>r. P r \<Longrightarrow> a_userId r = uid" and "\<And>r. a_userId (f r) = a_userId r"
  shows "same_for_others uid s (s\<lparr>Accounts := db_update f P (Accounts s)\<rparr>)"
  unfolding same_for_others_def
  by (simp, rule untouched_after_update) (use assms in auto)

lemma same_for_others_Categories:
  assumes "\<And>r. P r \<Longrightarrow> c_userId r = uid" and "\<And>r. c_userId (f r) = c_userId r"
  shows "same_for_others uid s (s\<lparr>Categories := db_update f P (Categories s)\<rparr>)"
  unfolding same_for_others_def
  by (simp, rule untouched_after_update) (use assms in auto)

lemma same_for_others_Transactions:
  assumes "\<And>r. P r \<Longrightarrow> t_userId r = uid" and "\<And>r. t_userId (f r) = t_userId r"
  shows "same_for_others uid s (s\<lparr>Transactions := db_update f P (Transactions s)\<rparr>)"
  unfolding same_for_others_def
  by (simp, rule untouched_after_update) (use assms in auto)

lemma same_for_others_delete:
  assumes "\<And>r. P r \<Longrightarrow> t_userId r = uid"
  shows "same_for_others uid s (s\<lparr>Transactions := db_delete P (Transactions s)\<rparr>)"
  unfolding same_for_others_def
  by (simp, rule untouched_after_delete) (use assms in auto)

lemma createAccount_others_kept:
  assumes "requireUser ctx = Inr u"
  shows "same_for_others (user_id u) s (snd (createAccount inp ctx e s))"
  using assms
  by (auto simp: createAccount_def same_for_others_def Let_def db_insert_def
      split: option.splits if_splits)

lemma createCategory_others_kept:
  assumes "requireUser ctx = Inr u"
  shows "same_for_others (user_id u) s (snd (createCategory inp ctx e s))"
  using assms
  by (auto simp: createCategory_def same_for_others_def Let_def db_insert_def
      split: option.splits if_splits)

lemma createTransaction_others_kept:
  assumes "requireUser ctx = Inr u"
  shows "same_for_others (user_id u) s (snd (createTransaction inp ctx e s))"
  using assms
  by (auto simp: createTransaction_def same_for_others_def Let_def db_insert_def
      split: option.splits if_splits)

lemma updateAccount_others_kept:
  assumes "requireUser ctx = Inr u"
  shows "same_for_others (user_id u) s (snd (updateAccount inp ctx e s))"
proof (cases "getAccountForUser (ua_id inp) (user_id u) s")
  case (Inl err)
  with assms show ?thesis by (simp add: updateAccount_def same_for_others_refl)
next
  case (Inr found)
  show ?thesis
  proof (cases found)
    case None
    with assms Inr show ?thesis by (simp add: updateAccount_def same_for_others_refl)
  next
    case (Some row)
    with assms Inr show ?thesis
      by (auto simp: updateAccount_def Let_def same_for_others_refl
          intro!: same_for_others_Accounts)
  qed
qed

lemma archiveAccount_others_kept:
  assumes "requireUser ctx = Inr u"
  shows "same_for_others (user_id u) s (snd (archiveAccount inp ctx e s))"
proof (cases "getAccountForUser (in_id inp) (user_id u) s")
  case (Inl err)
  with assms show ?thesis by (simp add: archiveAccount_def same_for_others_refl)
next
  case (Inr found)
  show ?thesis
  proof (cases found)
    case None
    with assms Inr show ?thesis by (simp add: archiveAccount_def same_for_others_refl)
  next
    case (Some row)
    with assms Inr show ?thesis
      by (auto simp: archiveAccount_def Let_def same_for_others_refl
          intro!: same_for_others_Accounts)
  qed
qed

lemma updateCategory_others_kept:
  assumes "requireUser ctx = Inr u"
  shows "same_for_others (user_id u) s (snd (updateCategory inp ctx e s))"
proof (cases "getCategoryForUser (uc_id inp) (user_id u) s")
  case (Inl err)
  with assms show ?thesis by (simp add: updateCategory_def same_for_others_refl)
next
  case (Inr found)
  show ?thesis
  proof (cases found)
    case None
    with assms Inr show ?thesis by (simp add: updateCategory_def same_for_others_refl)
  next
    case (Some row)
    with assms Inr show ?thesis
      by (auto simp: updateCategory_def Let_def same_for_others_refl
          intro!: same_for_others_Categories)
  qed
qed

lemma archiveCategory_others_kept:
  assumes "requireUser ctx = Inr u"
  shows "same_for_others (user_id u) s (snd (archiveCategory inp ctx e s))"
proof (cases "getCategoryForUser (in_id inp) (user_id u) s")
  case (Inl err)
  with assms show ?thesis by (simp add: archiveCategory_def same_for_others_refl)
next
  case (Inr found)
  show ?thesis
  proof (cases found)
    case None
    with assms Inr show ?thesis by (simp add: archiveCategory_def same_for_others_refl)
  next
    case (Some row)
    with assms Inr show ?thesis
      by (auto simp: archiveCategory_def Let_def same_for_others_refl
          intro!: same_for_others_Categories)
  qed
qed

lemma updateTransaction_others_kept:
  assumes "requireUser ctx = Inr u"
  shows "same_for_others (user_id u) s (snd (updateTransaction inp ctx e s))"
proof (cases "getTransactionForUser (ut_id inp) (user_id u) s")
  case (Inl err)
  with assms show ?thesis by (simp add: updateTransaction_def same_for_others_refl)
next
  case (Inr found)
  show ?thesis
  proof (cases found)
    case None
    with assms Inr show ?thesis by (simp add: updateTransaction_def same_for_others_refl)
  next
    case (Some row)
    with assms Inr show ?thesis
      by (auto simp: updateTransaction_def Let_def same_for_others_refl
          intro!: same_for_others_Transactions)
  qed
qed

lemma deleteTransaction_others_kept:
  assumes "requireUser ctx = Inr u"
  shows "same_for_others (user_id u) s (snd (deleteTransaction inp ctx e s))"
proof (cases "getTransactionForUser (in_id inp) (user_id u) s")
  case (Inl err)
  with assms show ?thesis by (simp add: deleteTransaction_def same_for_others_refl)
next
  case (Inr found)
  show ?thesis
  proof (cases found)
    case None
    with assms Inr show ?thesis by (simp add: deleteTransaction_def same_for_others_refl)
  next
    case (Some row)
    with assms Inr show ?thesis
      by (auto simp: deleteTransaction_def Let_def same_for_others_refl
          intro!: same_for_others_delete)
  qed
qed

lemma list_others_kept:
  "same_for_others uid s (snd (listAccounts li ctx e s))"
  "same_for_others uid s (snd (listCategories li ctx e s))"
  "same_for_others uid s (snd (listTransactions lti ctx e s))"
  by (simp_all add: listAccounts_def listCategories_def listTransactions_def Let_def
      same_for_others_def split: sum.splits)

lemma server_others_kept:
  assumes "requireUser ctx = Inr u"
  shows "same_for_others (user_id u) s (snd (server toDate req ctx e s))"
proof (cases req)
  case (CreateAccount raw)
  show ?thesis unfolding CreateAccount server.simps
    by (rule defineAction_keeps) (simp_all add: createAccount_others_kept [OF assms] same_for_others_refl)
next
  case (UpdateAccount raw)
  show ?thesis unfolding UpdateAccount server.simps
    by (rule defineAction_keeps) (simp_all add: updateAccount_others_kept [OF assms] same_for_others_refl)
next
  case (ArchiveAccount raw)
  show ?thesis unfolding ArchiveAccount server.simps
    by (rule defineAction_keeps) (simp_all add: archiveAccount_others_kept [OF assms] same_for_others_refl)
next
  case (ListAccounts raw)
  show ?thesis unfolding ListAccounts server.simps
    by (rule defineAction_keeps) (simp_all add: list_others_kept same_for_others_refl)
next
  case (CreateCategory raw)
  show ?thesis unfolding CreateCategory server.simps
    by (rule defineAction_keeps) (simp_all add: createCategory_others_kept [OF assms] same_for_others_refl)
next
  case (UpdateCategory raw)
  show ?thesis unfolding UpdateCategory server.simps
    by (rule defineAction_keeps) (simp_all add: updateCategory_others_kept [OF assms] same_for_others_refl)
next
  case (ArchiveCategory raw)
  show ?thesis unfolding ArchiveCategory server.simps
    by (rule defineAction_keeps) (simp_all add: archiveCategory_others_kept [OF assms] same_for_others_refl)
next
  case (ListCategories raw)
  show ?thesis unfolding ListCategories server.simps
    by (rule defineAction_keeps) (simp_all add: list_others_kept same_for_others_refl)
next
  case (CreateTransaction raw)
  show ?thesis unfolding CreateTransaction server.simps
    by (rule defineAction_keeps) (simp_all add: createTransaction_others_kept [OF assms] same_for_others_refl)
next
  case (UpdateTransaction raw)
  show ?thesis unfolding UpdateTransaction server.simps
    by (rule defineAction_keeps) (simp_all add: updateTransaction_others_kept [OF assms] same_for_others_refl)
next
  case (DeleteTransaction raw)
  show ?thesis unfolding DeleteTransaction server.simps
    by (rule defineAction_keeps) (simp_all add: deleteTransaction_others_kept [OF assms] same_for_others_refl)
next
  case (ListTransactions raw)
  show ?thesis unfolding ListTransactions server.simps
    by (rule defineAction_keeps) (simp_all add: list_others_kept same_for_others_refl)
qed

lemma getAccountForUser_other_owner:
  assumes "distinct (map a_id (Accounts s))" and "x \<in> set (Accounts s)" and "a_userId x \<noteq> uid"
  shows "getAccountForUser (a_id x) uid s = Inr None"
  using no_row_for_other_owner [where key = a_id and owner = a_userId, OF assms]
  by (simp add: getAccountForUser_def db_select_def first_or_null_def)

lemma getCategoryForUser_other_owner:
  assumes "distinct (map c_id (Categories s))" and "x \<in> set (Categories s)" and "c_userId x \<noteq> uid"
  shows "getCategoryForUser (c_id x) uid s = Inr None"
  using no_row_for_other_owner [where key = c_id and owner = c_userId, OF assms]
  by (simp add: getCategoryForUser_def db_select_def first_or_null_def)

lemma getTransactionForUser_other_owner:
  assumes "distinct (map t_id (Transactions s))" and "x \<in> set (Transactions s)" and "t_userId x \<noteq> uid"
  shows "getTransactionForUser (t_id x) uid s = Inr None"
  using no_row_for_other_owner [where key = t_id and owner = t_userId, OF assms]
  by (simp add: getTransactionForUser_def db_select_def first_or_null_def)

text \<open>
  Claim C1.  Take a signed-in caller and a row that belongs to someone else, in a table
  whose ids are distinct: an account, a category or a transaction, each on its own.
  Looked up by its id for the caller, the row is absent; the caller's update and archive
  of the account or category, and the caller's update and delete of the transaction, end
  in \<open>NOT_FOUND\<close>, return no data and leave the store unchanged, whatever else the
  input holds.  Moreover no request of the caller, whatever the action and input, changes
  any row of another owner.
\<close>

theorem cross_owner_access_is_not_found:
  assumes "requireUser ctx = Inr caller"
  shows "(distinct (map a_id (Accounts s)) \<and> a \<in> set (Accounts s)
            \<and> a_userId a \<noteq> user_id caller \<longrightarrow>
            getAccountForUser (a_id a) (user_id caller) s = Inr None
          \<and> updateAccount (ai\<lparr>ua_id := a_id a\<rparr>) ctx e s
              = (Inl (ActionError NOT_FOUND ''Account not found.''), s)
          \<and> archiveAccount \<lparr>in_id = a_id a\<rparr> ctx e s
              = (Inl (ActionError NOT_FOUND ''Account not found.''), s))
       \<and> (distinct (map c_id (Categories s)) \<and> c \<in> set (Categories s)
            \<and> c_userId c \<noteq> user_id caller \<longrightarrow>
            getCategoryForUser (c_id c) (user_id caller) s = Inr None
          \<and> updateCategory (ci\<lparr>uc_id := c_id c\<rparr>) ctx e s
              = (Inl (ActionError NOT_FOUND ''Category not found.''), s)
          \<and> archiveCategory \<lparr>in_id = c_id c\<rparr> ctx e s
              = (Inl (ActionError NOT_FOUND ''Category not found.''), s))
       \<and> (distinct (map t_id (Transactions s)) \<and> t \<in> set (Transactions s)
            \<and> t_userId t \<noteq> user_id caller \<longrightarrow>
            getTransactionForUser (t_id t) (user_id caller) s = Inr None
          \<and> updateTransaction (ti\<lparr>ut_id := t_id t\<rparr>) ctx e s
              = (Inl (ActionError NOT_FOUND ''Transaction not found.''), s)
          \<and> deleteTransaction \<lparr>in_id = t_id t\<rparr> ctx e s
              = (Inl (ActionError NOT_FOUND ''Transaction not found.''), s))
       \<and> same_for_others (user_id caller) s (snd (server toDate req ctx e s))"
proof (intro conjI impI)
  assume h: "distinct (map a_id (Accounts s)) \<and> a \<in> set (Accounts s)
               \<and> a_userId a \<noteq> user_id caller"
  hence l: "getAccountForUser (a_id a) (user_id caller) s = Inr None"
    by (intro getAccountForUser_other_owner) simp_all
  show "getAccountForUser (a_id a) (user_id caller) s = Inr None" by (rule l)
  show "updateAccount (ai\<lparr>ua_id := a_id a\<rparr>) ctx e s
          = (Inl (ActionError NOT_FOUND ''Account not found.''), s)"
    using assms l by (simp add: updateAccount_def)
  show "archiveAccount \<lparr>in_id = a_id a\<rparr> ctx e s
          = (Inl (ActionError NOT_FOUND ''Account not found.''), s)"
    using assms l by (simp add: archiveAccount_def)
next
  assume h: "distinct (map c_id (Categories s)) \<and> c \<in> set (Categories s)
               \<and> c_userId c \<noteq> user_id caller"
  hence l: "getCategoryForUser (c_id c) (user_id caller) s = Inr None"
    by (intro getCategoryForUser_other_owner) simp_all
  show "getCategoryForUser (c_id c) (user_id caller) s = Inr None" by (rule l)
  show "updateCategory (ci\<lparr>uc_id := c_id c\<rparr>) ctx e s
          = (Inl (ActionError NOT_FOUND ''Category not found.''), s)"
    using assms l by (simp add: updateCategory_def)
  show "archiveCategory \<lparr>in_id = c_id c\<rparr> ctx e s
          = (Inl (ActionError NOT_FOUND ''Category not found.''), s)"
    using assms l by (simp add: archiveCategory_def)
next
  assume h: "distinct (map t_id (Transactions s)) \<and> t \<in> set (Transactions s)
               \<and> t_userId t \<noteq> user_id caller"
  hence l: "getTransactionForUser (t_id t) (user_id caller) s = Inr None"
    by (intro getTransactionForUser_other_owner) simp_all
  show "getTransactionForUser (t_id t) (user_id caller) s = Inr None" by (rule l)
  show "updateTransaction (ti\<lparr>ut_id := t_id t\<rparr>) ctx e s
          = (Inl (ActionError NOT_FOUND ''Transaction not found.''), s)"
    using assms l by (simp add: updateTransaction_def)
  show "deleteTransaction \<lparr>in_id = t_id t\<rparr> ctx e s
          = (Inl (ActionError NOT_FOUND ''Transaction not found.''), s)"
    using assms l by (simp add: deleteTransaction_def)
next
  show "same_for_others (user_id caller) s (snd (server toDate req ctx e s))"
    by (rule server_others_kept [OF assms])
qed

theorem cross_owner_access_is_not_found_witness:
  "requireUser (signed_in ''bob'') = Inr \<lparr>user_id = ''bob''\<rparr>
   \<and> distinct (map a_id (Accounts db1)) \<and> cash \<in> set (Accounts db1) \<and> a_userId cash = ''alice''
   \<and> distinct (map c_id (Categories db1)) \<and> rent \<in> set (Categories db1)
   \<and> c_userId rent = ''alice''
   \<and> distinct (map t_id (Transactions db1)) \<and> tx1 \<in> set (Transactions db1)
   \<and> t_userId tx1 = ''alice''
   \<and> getAccountForUser ''a1'' ''bob'' db1 = Inr None
   \<and> updateAccount rename_cash (signed_in ''bob'') env1 db1
       = (Inl (ActionError NOT_FOUND ''Account not found.''), db1)
   \<and> archiveAccount \<lparr>in_id = ''a1''\<rparr> (signed_in ''bob'') env1 db1
       = (Inl (ActionError NOT_FOUND ''Account not found.''), db1)
   \<and> getCategoryForUser ''c1'' ''bob'' db1 = Inr None
   \<and> updateCategory retype_rent (signed_in ''bob'') env1 db1
       = (Inl (ActionError NOT_FOUND ''Category not found.''), db1)
   \<and> archiveCategory \<lparr>in_id = ''c1''\<rparr> (signed_in ''bob'') env1 db1
       = (Inl (ActionError NOT_FOUND ''Category not found.''), db1)
   \<and> getTransactionForUser ''t1'' ''bob'' db1 = Inr None
   \<and> updateTransaction reprice_tx1 (signed_in ''bob'') env1 db1
       = (Inl (ActionError NOT_FOUND ''Transaction not found.''), db1)
   \<and> deleteTransaction \<lparr>in_id = ''t1''\<rparr> (signed_in ''bob'') env1 db1
       = (Inl (ActionError NOT_FOUND ''Transaction not found.''), db1)
   \<and> same_for_others ''bob'' db1
        (snd (server epoch_ms (DeleteTransaction (JObj [(''id'', JStr ''t4'')]))
               (signed_in ''bob'') env1 db1))"
proof -
  have d: "distinct (map a_id (Accounts db1))" "distinct (map c_id (Categories db1))"
    "distinct (map t_id (Transactions db1))"
    using db1_primary_keys by (simp_all add: primary_keys_def)
  have m: "cash \<in> set (Accounts db1)" "rent \<in> set (Categories db1)"
    "tx1 \<in> set (Transactions db1)"
    by (simp_all add: db1_tables)
  have i: "rename_cash\<lparr>ua_id := a_id cash\<rparr> = rename_cash"
    "retype_rent\<lparr>uc_id := c_id rent\<rparr> = retype_rent"
    "reprice_tx1\<lparr>ut_id := t_id tx1\<rparr> = reprice_tx1"
    by (simp_all add: rename_cash_def retype_rent_def reprice_tx1_def acc_cols cat_cols tx_cols)
  from cross_owner_access_is_not_found
         [OF requireUser_signed_in [of "''bob''"],
          where s = db1 and a = cash and c = rent and t = tx1
            and ai = rename_cash and ci = retype_rent and ti = reprice_tx1 and e = env1
            and toDate = epoch_ms and req = "DeleteTransaction (JObj [(''id'', JStr ''t4'')])"]
       d m i
  show ?thesis by (simp add: requireUser_signed_in acc_cols cat_cols tx_cols)
qed

end
